theory Spec2Isabelle
  imports Main "HOL-Library.Word"
begin

unbundle bit_operations_syntax

section \<open>Errors\<close>

text \<open>
  Go's \<open>error\<close> values that the transport and the framing code produce or pass on.
  \<open>errTransportClosed\<close> and \<open>errNoHandler\<close> are the two package variables of the
  transport; \<open>io_EOF\<close> is \<open>io.EOF\<close>; \<open>Wrap e m\<close> is \<open>errors.Wrap(e, m)\<close>;
  \<open>CustomError code data\<close> is the error value an Error frame decodes to; \<open>OtherError\<close>
  stands for any other error of a collaborator (connection, handler, context, writer).
\<close>

datatype message =
    ReadFirstFailed
  | DispatchFailed
  | HandleFrameFailed "8 word"

datatype error =
    io_EOF
  | errTransportClosed
  | errNoHandler
  | CustomError "32 word" "8 word list"
  | Wrap error message
  | OtherError nat

section \<open>Frame headers and flags (package core)\<close>

type_synonym byte = "8 word"
type_synonym FrameType = "8 word"
type_synonym FrameFlag = "16 word"

text \<open>
  Modelled from the spec: the constants of package \<open>core\<close> and \<open>FrameFlag.Check\<close> are
  not part of the sources at hand. The frame types carry the numeric values of the wire
  format table; the Metadata flag is the bit \<open>0x100\<close> of the ten flag bits, as in the
  RSocket protocol; \<open>Check\<close> tells whether a flag is set.
\<close>

abbreviation FrameTypeReserved :: FrameType where "FrameTypeReserved \<equiv> 0x00"
abbreviation FrameTypeSetup :: FrameType where "FrameTypeSetup \<equiv> 0x01"
abbreviation FrameTypeLease :: FrameType where "FrameTypeLease \<equiv> 0x02"
abbreviation FrameTypeKeepalive :: FrameType where "FrameTypeKeepalive \<equiv> 0x03"
abbreviation FrameTypeRequestResponse :: FrameType where "FrameTypeRequestResponse \<equiv> 0x04"
abbreviation FrameTypeRequestFNF :: FrameType where "FrameTypeRequestFNF \<equiv> 0x05"
abbreviation FrameTypeRequestStream :: FrameType where "FrameTypeRequestStream \<equiv> 0x06"
abbreviation FrameTypeRequestChannel :: FrameType where "FrameTypeRequestChannel \<equiv> 0x07"
abbreviation FrameTypeRequestN :: FrameType where "FrameTypeRequestN \<equiv> 0x08"
abbreviation FrameTypeCancel :: FrameType where "FrameTypeCancel \<equiv> 0x09"
abbreviation FrameTypePayload :: FrameType where "FrameTypePayload \<equiv> 0x0A"
abbreviation FrameTypeError :: FrameType where "FrameTypeError \<equiv> 0x0B"
abbreviation FrameTypeMetadataPush :: FrameType where "FrameTypeMetadataPush \<equiv> 0x0C"
abbreviation FrameTypeResume :: FrameType where "FrameTypeResume \<equiv> 0x0D"
abbreviation FrameTypeResumeOK :: FrameType where "FrameTypeResumeOK \<equiv> 0x0E"
abbreviation FrameTypeExt :: FrameType where "FrameTypeExt \<equiv> 0x3F"

definition known_types :: "FrameType list" where
  "known_types = [FrameTypeReserved, FrameTypeSetup, FrameTypeLease, FrameTypeKeepalive,
     FrameTypeRequestResponse, FrameTypeRequestFNF, FrameTypeRequestStream,
     FrameTypeRequestChannel, FrameTypeRequestN, FrameTypeCancel, FrameTypePayload,
     FrameTypeError, FrameTypeMetadataPush, FrameTypeResume, FrameTypeResumeOK,
     FrameTypeExt]"

definition FlagMetadata :: FrameFlag where
  "FlagMetadata = 0x100"

definition Check :: "FrameFlag \<Rightarrow> FrameFlag \<Rightarrow> bool" where
  "Check f flag = (flag AND f = flag)"

text \<open>
  Modelled from the spec: \<open>core.FrameHeader\<close> is the triple
  \<open>(streamId: u31, type: u6, flags: u10)\<close>; \<open>NewFrameHeader\<close> takes a \<open>uint32\<close>, a frame
  type and a flag word, which are the field types here. A header is valid when the three
  fields fit their 31, 6 and 10 bits.
\<close>

record FrameHeader =
  StreamID :: "32 word"
  Type :: FrameType
  Flag :: FrameFlag

definition NewFrameHeader :: "32 word \<Rightarrow> FrameType \<Rightarrow> FrameFlag \<Rightarrow> FrameHeader" where
  "NewFrameHeader streamID frameType fg = \<lparr>StreamID = streamID, Type = frameType, Flag = fg\<rparr>"

definition valid_header :: "FrameHeader \<Rightarrow> bool" where
  "valid_header h = (StreamID h < 0x80000000 \<and> Type h < 64 \<and> Flag h < 1024)"

subsection \<open>Big-endian integers\<close>

definition PutUint32 :: "32 word \<Rightarrow> byte list" where
  "PutUint32 v = [ucast (drop_bit 24 v), ucast (drop_bit 16 v), ucast (drop_bit 8 v), ucast v]"

definition Uint32 :: "byte \<Rightarrow> byte \<Rightarrow> byte \<Rightarrow> byte \<Rightarrow> 32 word" where
  "Uint32 a b c d =
     push_bit 24 (ucast a) OR push_bit 16 (ucast b) OR push_bit 8 (ucast c) OR ucast d"

definition PutUint16 :: "16 word \<Rightarrow> byte list" where
  "PutUint16 v = [ucast (drop_bit 8 v), ucast v]"

definition Uint16 :: "byte \<Rightarrow> byte \<Rightarrow> 16 word" where
  "Uint16 a b = push_bit 8 (ucast a) OR ucast b"

text \<open>
  The 24-bit length in front of the metadata. The spec gives no behaviour for a length of
  \<open>2 ^ 24\<close> or more; the three bytes hold the length modulo \<open>2 ^ 24\<close>, and the theorems
  below ask for a representable length.
\<close>

definition PutUint24 :: "nat \<Rightarrow> byte list" where
  "PutUint24 l = [of_nat (l div 65536), of_nat (l div 256), of_nat l]"

definition Uint24 :: "byte \<Rightarrow> byte \<Rightarrow> byte \<Rightarrow> nat" where
  "Uint24 a b c = unat a * 65536 + unat b * 256 + unat c"

subsection \<open>Writers\<close>

text \<open>
  An \<open>io.Writer\<close> is its \<open>Write\<close> method, a function from the writer's state and the
  bytes to the count written, the error, and the new state. \<open>buffer_Write\<close> is an
  in-memory buffer (\<open>bytes.Buffer\<close>), which takes everything and never fails.
\<close>

type_synonym 'w Write = "'w \<Rightarrow> byte list \<Rightarrow> (int \<times> error option) \<times> 'w"

definition buffer_Write :: "(byte list) Write" where
  "buffer_Write buf bs = ((int (length bs), None), buf @ bs)"

text \<open>
  Modelled from the spec: \<open>FrameHeader.WriteTo\<close> is not in the sources. The header is the
  48 bits of the wire format: the reserved bit and the 31-bit stream id as one big-endian
  32-bit word, then the 6-bit type above the 10 flag bits as one big-endian 16-bit word.
\<close>

definition header_bytes :: "FrameHeader \<Rightarrow> byte list" where
  "header_bytes h =
     PutUint32 (StreamID h) @ PutUint16 (push_bit 10 (ucast (Type h)) OR Flag h)"

definition FrameHeader_WriteTo :: "'w Write \<Rightarrow> FrameHeader \<Rightarrow> 'w \<Rightarrow> (int \<times> error option) \<times> 'w" where
  "FrameHeader_WriteTo wr h w = wr w (header_bytes h)"

text \<open>
  Modelled from the spec: \<open>writePayload\<close> is not in the sources; its call
  \<open>writePayload(w, p.data, p.metadata)\<close> fixes its arguments: it sees the data and the
  metadata, not the header. "Metadata length, when present, is prefixed as 24-bit
  big-endian before data on the wire": metadata that is present (\<open>len(metadata) > 0\<close>, the
  test of \<open>NewWriteablePayloadFrame\<close>) is written as its length and its bytes, and the data
  follow. A failed write ends the function with that error.
\<close>

definition writePayload :: "'w Write \<Rightarrow> 'w \<Rightarrow> byte list \<Rightarrow> byte list \<Rightarrow> (int \<times> error option) \<times> 'w" where
  "writePayload wr w data metadata =
     (if length metadata > 0 then
        (let ((n1, e1), w1) = wr w (PutUint24 (length metadata)) in
         if e1 \<noteq> None then ((0, e1), w1)
         else let ((n2, e2), w2) = wr w1 metadata in
           if e2 \<noteq> None then ((n1, e2), w2)
           else if length data > 0 then
             (let ((n3, e3), w3) = wr w2 data in
              if e3 \<noteq> None then ((n1 + n2, e3), w3) else ((n1 + n2 + n3, None), w3))
           else ((n1 + n2, None), w2))
      else if length data > 0 then
        (let ((n3, e3), w3) = wr w data in
         if e3 \<noteq> None then ((0, e3), w3) else ((n3, None), w3))
      else ((0, None), w))"

section \<open>The writeable Payload frame (core/framing/writeable\_payload.go)\<close>

text \<open>
  \<open>WriteablePayloadFrame\<close> embeds a \<open>writeableFrame\<close>, of which the code here reads the
  header only. A Go byte slice is a list of bytes; \<open>nil\<close> and the empty slice are both
  \<open>[]\<close>, and the code tells them apart nowhere but in \<open>DataUTF8\<close>, where both give the
  empty string.
\<close>

record WriteablePayloadFrame =
  header :: FrameHeader
  metadata :: "byte list"
  data :: "byte list"

definition NewWriteablePayloadFrame ::
  "32 word \<Rightarrow> byte list \<Rightarrow> byte list \<Rightarrow> FrameFlag \<Rightarrow> WriteablePayloadFrame" where
  "NewWriteablePayloadFrame sid dat md flag =
     (let flag' = (if length md > 0 then flag OR FlagMetadata else flag);
          h = NewFrameHeader sid FrameTypePayload flag'
      in \<lparr>header = h, metadata = md, data = dat\<rparr>)"

definition Data :: "WriteablePayloadFrame \<Rightarrow> byte list" where
  "Data p = data p"

definition Metadata :: "WriteablePayloadFrame \<Rightarrow> byte list \<times> bool" where
  "Metadata p =
     (let ok = Check (Flag (header p)) FlagMetadata in
      if ok then (metadata p, ok) else ([], ok))"

definition DataUTF8 :: "WriteablePayloadFrame \<Rightarrow> byte list" where
  "DataUTF8 p = (if data p \<noteq> [] then data p else [])"

definition MetadataUTF8 :: "WriteablePayloadFrame \<Rightarrow> byte list \<times> bool" where
  "MetadataUTF8 p =
     (let ok = Check (Flag (header p)) FlagMetadata in
      if ok then (metadata p, ok) else ([], ok))"

text \<open>
  \<open>WriteTo\<close> returns the count \<open>n\<close> and the error; \<open>n\<close> starts at 0, takes the header's
  count when the header went out, and the payload's count when the payload went out too.
\<close>

definition WriteTo :: "'w Write \<Rightarrow> WriteablePayloadFrame \<Rightarrow> 'w \<Rightarrow> (int \<times> error option) \<times> 'w" where
  "WriteTo wr p w =
     (let ((wrote, err), w1) = FrameHeader_WriteTo wr (header p) w in
      if err \<noteq> None then ((0, err), w1)
      else
        (let n = 0 + wrote;
             ((wrote', err'), w2) = writePayload wr w1 (data p) (metadata p)
         in ((if err' = None then n + wrote' else n, err'), w2)))"

section \<open>Decoding (the frame codec of the spec)\<close>

text \<open>
  Modelled from the spec: the decoder is not in the sources. "Reads the 6-byte frame
  header, interprets per-type body, and for frames with Metadata flag set reads a 3-byte
  big-endian metadata length followed by metadata bytes, then the remaining bytes as
  data." Its errors are truncation, an unknown type, a reserved bit that is set, and a
  metadata length that exceeds the frame. Only the body of a Payload frame is
  interpreted here; a frame of another known type is returned as its header and its raw
  body.
\<close>

datatype FrameError = Incomplete | UnknownType | ReservedBit | MetadataLengthExceeds

datatype Frame =
    Payload FrameHeader "byte list option" "byte list"
  | Other FrameHeader "byte list"

fun decode_header :: "byte list \<Rightarrow> FrameError + FrameHeader \<times> byte list" where
  "decode_header (b0 # b1 # b2 # b3 # b4 # b5 # body) =
     (let sid = Uint32 b0 b1 b2 b3;
          n = Uint16 b4 b5;
          t = (ucast (drop_bit 10 n) :: FrameType);
          fg = n AND 0x3FF
      in if bit sid 31 then Inl ReservedBit
         else if t \<notin> set known_types then Inl UnknownType
         else Inr (\<lparr>StreamID = sid, Type = t, Flag = fg\<rparr>, body))"
| "decode_header _ = Inl Incomplete"

fun decode_payload_body :: "FrameFlag \<Rightarrow> byte list \<Rightarrow> FrameError + byte list option \<times> byte list" where
  "decode_payload_body fg body =
     (if Check fg FlagMetadata then
        (case body of
           a # b # c # rest \<Rightarrow>
             (let l = Uint24 a b c in
              if length rest < l then Inl MetadataLengthExceeds
              else Inr (Some (take l rest), drop l rest))
         | _ \<Rightarrow> Inl Incomplete)
      else Inr (None, body))"

definition decode :: "byte list \<Rightarrow> FrameError + Frame" where
  "decode bs =
     (case decode_header bs of
        Inl e \<Rightarrow> Inl e
      | Inr (h, body) \<Rightarrow>
          if Type h = FrameTypePayload then
            (case decode_payload_body (Flag h) body of
               Inl e \<Rightarrow> Inl e
             | Inr (md, d) \<Rightarrow> Inr (Payload h md d))
          else Inr (Other h body))"

text \<open>
  What a decoder has to give back for a writeable Payload frame: its header, its metadata
  as \<open>Metadata()\<close> reports them (absent when \<open>ok\<close> is false), and its data.
\<close>

definition frame_of :: "WriteablePayloadFrame \<Rightarrow> Frame" where
  "frame_of p =
     (case Metadata p of (md, ok) \<Rightarrow>
        Payload (header p) (if ok then Some md else None) (Data p))"

text \<open>
  The bytes \<open>writePayload\<close> sends for a payload: the length-prefixed metadata when there
  are any, then the data.
\<close>

definition payload_bytes :: "byte list \<Rightarrow> byte list \<Rightarrow> byte list" where
  "payload_bytes dat md = (if md \<noteq> [] then PutUint24 (length md) @ md else []) @ dat"

text \<open>
  The encoding of a Payload frame in the spec's words, to compare \<open>WriteTo\<close> with:
  "Metadata encoding when \<open>Metadata\<close> flag is set: 24-bit big-endian length, followed by
  that many metadata bytes, followed by remaining bytes as data." The header comes first;
  the metadata are those \<open>Metadata()\<close> reports, and their length is written whenever the
  flag is set, also when it is 0.
\<close>

definition encode_spec :: "WriteablePayloadFrame \<Rightarrow> byte list" where
  "encode_spec p =
     header_bytes (header p)
       @ (case Metadata p of (md, ok) \<Rightarrow> if ok then PutUint24 (length md) @ md else [])
       @ Data p"

section \<open>The transport\<close>

subsection \<open>Frames as the dispatcher sees them\<close>

text \<open>
  \<open>DispatchFrame\<close> reads the header of a \<open>core.BufferedFrame\<close> and, for four frame types,
  asserts the frame's dynamic type and calls one accessor of it. A buffered frame is
  therefore its header and its dynamic value; a type assertion on a value of another
  dynamic type panics.

  Modelled from the spec: the accessors \<open>MaxLifetime\<close>, \<open>LastReceivedClientPosition\<close>,
  \<open>LastReceivedPosition\<close> and \<open>ToError\<close> of package \<open>framing\<close> are not in the sources; each
  value carries what its accessor returns, and an Error frame is "decoded into an error
  value" made of its code and its data.
\<close>

type_synonym Duration = int
type_synonym Time = int

datatype FrameValue =
    SetupFrame Duration
  | ResumeOKFrame "64 word"
  | KeepaliveFrame "64 word"
  | ErrorFrame "32 word" "byte list"
  | OtherFrame "byte list"

record BufferedFrame =
  Header :: FrameHeader
  Value :: FrameValue

definition ToError :: "32 word \<Rightarrow> byte list \<Rightarrow> error" where
  "ToError code dat = CustomError code dat"

text \<open>
  The type assertions of \<open>DispatchFrame\<close> succeed on a frame whose dynamic value is the
  one its header announces.
\<close>

definition well_typed :: "BufferedFrame \<Rightarrow> bool" where
  "well_typed frame =
     (let t = Type (Header frame) in
      if t = FrameTypeSetup then (case Value frame of SetupFrame _ \<Rightarrow> True | _ \<Rightarrow> False)
      else if t = FrameTypeResumeOK then (case Value frame of ResumeOKFrame _ \<Rightarrow> True | _ \<Rightarrow> False)
      else if t = FrameTypeError \<and> StreamID (Header frame) = 0 then
        (case Value frame of ErrorFrame _ _ \<Rightarrow> True | _ \<Rightarrow> False)
      else if t = FrameTypeKeepalive then (case Value frame of KeepaliveFrame _ \<Rightarrow> True | _ \<Rightarrow> False)
      else True)"

subsection \<open>Collaborators\<close>

text \<open>
  The transport calls its connection, the clock, the logger, the context, the registered
  handlers and the release hook of a frame. Every call with an effect is recorded, in
  order, in a log; what a collaborator answers is a function of the log so far (and of the
  call's arguments), so that any behaviour of the connection, of the handlers and of the
  clock is some environment. Handlers act on the world outside the transport: they do not
  re-enter the transport they are registered with.
\<close>

datatype EventType =
    OnSetup
  | OnResume
  | OnLease
  | OnResumeOK
  | OnFireAndForget
  | OnMetadataPush
  | OnRequestResponse
  | OnRequestStream
  | OnRequestChannel
  | OnPayload
  | OnRequestN
  | OnError
  | OnErrorWithZeroStreamID
  | OnCancel
  | OnKeepalive

datatype 'wf call =
    ConnRead
  | ConnWrite 'wf
  | ConnFlush
  | ConnSetDeadline Time
  | ConnClose
  | CallHandler EventType BufferedFrame
  | FrameDone 'wf
  | LoggerWarnf "32 word"

type_synonym 'wf FrameHandler = "'wf call list \<Rightarrow> BufferedFrame \<Rightarrow> error option"

record 'wf env =
  conn_Read :: "'wf call list \<Rightarrow> error + BufferedFrame"
  conn_Write :: "'wf call list \<Rightarrow> 'wf \<Rightarrow> error option"
  conn_Flush :: "'wf call list \<Rightarrow> error option"
  conn_SetDeadline :: "'wf call list \<Rightarrow> Time \<Rightarrow> error option"
  conn_Close :: "'wf call list \<Rightarrow> error option"
  time_Now :: "'wf call list \<Rightarrow> Time"
  ctx_Err :: "'wf call list \<Rightarrow> error option"

text \<open>
  \<open>ctx_Err\<close> is \<open>None\<close> while the context is not done, and the context's error once it is.
\<close>

subsection \<open>The transport and its methods\<close>

datatype Conn = Conn nat

datatype 'a outcome = Panic | Return 'a

record 'wf Transport =
  conn :: "Conn option"
  maxLifetime :: Duration
  lastRcvPos :: "64 word"
  once :: bool
  handlers :: "EventType \<Rightarrow> 'wf FrameHandler option"

text \<open>
  Modelled from the spec: \<open>common.DefaultKeepaliveMaxLifetime\<close> is not in the sources; the
  default is "typically 90s", in nanoseconds as a \<open>time.Duration\<close> counts.
\<close>

definition DefaultKeepaliveMaxLifetime :: Duration where
  "DefaultKeepaliveMaxLifetime = 90 * 1000000000"

definition NewTransport :: "Conn option \<Rightarrow> 'wf Transport" where
  "NewTransport c =
     \<lparr>conn = c, maxLifetime = DefaultKeepaliveMaxLifetime, lastRcvPos = 0, once = False,
      handlers = (\<lambda>_. None)\<rparr>"

definition IsNoHandlerError :: "error option \<Rightarrow> bool" where
  "IsNoHandlerError err = (err = Some errNoHandler)"

definition Handle :: "'wf Transport \<Rightarrow> EventType \<Rightarrow> 'wf FrameHandler option \<Rightarrow> 'wf Transport" where
  "Handle p event handler = p\<lparr>handlers := (handlers p)(event := handler)\<rparr>"

definition getHandler :: "'wf Transport \<Rightarrow> EventType \<Rightarrow> 'wf FrameHandler option" where
  "getHandler p t = handlers p t"

definition SetLifetime :: "'wf Transport \<Rightarrow> Duration \<Rightarrow> 'wf Transport" where
  "SetLifetime p lifetime = (if lifetime < 1 then p else p\<lparr>maxLifetime := lifetime\<rparr>)"

text \<open>
  \<open>Send\<close>: the body gives the error and the log; the deferred function then calls
  \<open>frame.Done()\<close> when the error is nil. The receiver may be nil.
\<close>

definition Send_body ::
  "'wf env \<Rightarrow> 'wf Transport option \<Rightarrow> 'wf call list \<Rightarrow> 'wf \<Rightarrow> bool \<Rightarrow> error option \<times> 'wf call list" where
  "Send_body env p log frame flush =
     (case p of
        None \<Rightarrow> (Some errTransportClosed, log)
      | Some t \<Rightarrow>
          (case conn t of
             None \<Rightarrow> (Some errTransportClosed, log)
           | Some _ \<Rightarrow>
               (let err = conn_Write env log frame;
                    log1 = log @ [ConnWrite frame]
                in if err \<noteq> None then (err, log1)
                   else if \<not> flush then (err, log1)
                   else (conn_Flush env log1, log1 @ [ConnFlush]))))"

definition Send ::
  "'wf env \<Rightarrow> 'wf Transport option \<Rightarrow> 'wf call list \<Rightarrow> 'wf \<Rightarrow> bool \<Rightarrow> error option \<times> 'wf call list" where
  "Send env p log frame flush =
     (case Send_body env p log frame flush of
        (err, log') \<Rightarrow> if err = None then (err, log' @ [FrameDone frame]) else (err, log'))"

definition Flush :: "'wf env \<Rightarrow> 'wf Transport option \<Rightarrow> 'wf call list \<Rightarrow> error option \<times> 'wf call list" where
  "Flush env p log =
     (case p of
        None \<Rightarrow> (Some errTransportClosed, log)
      | Some t \<Rightarrow>
          (case conn t of
             None \<Rightarrow> (Some errTransportClosed, log)
           | Some _ \<Rightarrow> (conn_Flush env log, log @ [ConnFlush])))"

text \<open>
  \<open>Close\<close>: \<open>sync.Once\<close> runs the function on the first call only, and counts a call in
  which the function panics (here: a nil connection) as done.
\<close>

definition Close ::
  "'wf env \<Rightarrow> 'wf Transport \<Rightarrow> 'wf call list \<Rightarrow> error option outcome \<times> 'wf Transport \<times> 'wf call list" where
  "Close env p log =
     (if once p then (Return None, p, log)
      else
        (case conn p of
           None \<Rightarrow> (Panic, p\<lparr>once := True\<rparr>, log)
         | Some _ \<Rightarrow> (Return (conn_Close env log), p\<lparr>once := True\<rparr>, log @ [ConnClose])))"

text \<open>
  The part of \<open>DispatchFrame\<close> after the switch: set the deadline, report a missing
  handler, call the handler. \<open>sel\<close> is the handler slot the switch has read (none when no
  case matched, where \<open>handler\<close> stays nil).
\<close>

definition dispatch_tail ::
  "'wf env \<Rightarrow> 'wf Transport \<Rightarrow> 'wf call list \<Rightarrow> BufferedFrame \<Rightarrow> EventType option
     \<Rightarrow> error option outcome \<times> 'wf Transport \<times> 'wf call list" where
  "dispatch_tail env p log frame sel =
     (let deadline = time_Now env log + maxLifetime p in
      case conn p of
        None \<Rightarrow> (Panic, p, log)
      | Some _ \<Rightarrow>
          (let err = conn_SetDeadline env log deadline;
               log1 = log @ [ConnSetDeadline deadline]
           in if err \<noteq> None then (Return err, p, log1)
              else
                (case sel of
                   None \<Rightarrow> (Return (Some errNoHandler), p, log1)
                 | Some ev \<Rightarrow>
                     (case getHandler p ev of
                        None \<Rightarrow> (Return (Some errNoHandler), p, log1)
                      | Some handler \<Rightarrow>
                          (case handler log1 frame of
                             None \<Rightarrow> (Return None, p, log1 @ [CallHandler ev frame])
                           | Some e \<Rightarrow>
                               (Return (Some (Wrap e (HandleFrameFailed (Type (Header frame))))),
                                p, log1 @ [CallHandler ev frame]))))))"

definition DispatchFrame ::
  "'wf env \<Rightarrow> 'wf Transport \<Rightarrow> 'wf call list \<Rightarrow> BufferedFrame
     \<Rightarrow> error option outcome \<times> 'wf Transport \<times> 'wf call list" where
  "DispatchFrame env p log frame =
     (let hdr = Header frame; t = Type hdr; sid = StreamID hdr in
      if t = FrameTypeSetup then
        (case Value frame of
           SetupFrame ml \<Rightarrow> dispatch_tail env (p\<lparr>maxLifetime := ml\<rparr>) log frame (Some OnSetup)
         | _ \<Rightarrow> (Panic, p, log))
      else if t = FrameTypeResume then dispatch_tail env p log frame (Some OnResume)
      else if t = FrameTypeResumeOK then
        (case Value frame of
           ResumeOKFrame pos \<Rightarrow> dispatch_tail env (p\<lparr>lastRcvPos := pos\<rparr>) log frame (Some OnResumeOK)
         | _ \<Rightarrow> (Panic, p, log))
      else if t = FrameTypeRequestFNF then dispatch_tail env p log frame (Some OnFireAndForget)
      else if t = FrameTypeMetadataPush then
        (if sid \<noteq> 0 then (Return None, p, log @ [LoggerWarnf sid])
         else dispatch_tail env p log frame (Some OnMetadataPush))
      else if t = FrameTypeRequestResponse then dispatch_tail env p log frame (Some OnRequestResponse)
      else if t = FrameTypeRequestStream then dispatch_tail env p log frame (Some OnRequestStream)
      else if t = FrameTypeRequestChannel then dispatch_tail env p log frame (Some OnRequestChannel)
      else if t = FrameTypePayload then dispatch_tail env p log frame (Some OnPayload)
      else if t = FrameTypeRequestN then dispatch_tail env p log frame (Some OnRequestN)
      else if t = FrameTypeError then
        (if sid = 0 then
           (case Value frame of
              ErrorFrame code dat \<Rightarrow>
                (case getHandler p OnErrorWithZeroStreamID of
                   Some call \<Rightarrow>
                     (Return (Some (ToError code dat)), p,
                      log @ [CallHandler OnErrorWithZeroStreamID frame])
                 | None \<Rightarrow> (Return (Some (ToError code dat)), p, log))
            | _ \<Rightarrow> (Panic, p, log))
         else dispatch_tail env p log frame (Some OnError))
      else if t = FrameTypeCancel then dispatch_tail env p log frame (Some OnCancel)
      else if t = FrameTypeKeepalive then
        (case Value frame of
           KeepaliveFrame pos \<Rightarrow> dispatch_tail env (p\<lparr>lastRcvPos := pos\<rparr>) log frame (Some OnKeepalive)
         | _ \<Rightarrow> (Panic, p, log))
      else if t = FrameTypeLease then dispatch_tail env p log frame (Some OnLease)
      else dispatch_tail env p log frame None)"

text \<open>
  \<open>ReadFirst\<close>: a done context or a failed read closes the transport; the result of that
  \<open>Close\<close> is dropped.
\<close>

definition ReadFirst ::
  "'wf env \<Rightarrow> 'wf Transport \<Rightarrow> 'wf call list
     \<Rightarrow> (BufferedFrame option \<times> error option) outcome \<times> 'wf Transport \<times> 'wf call list" where
  "ReadFirst env p log =
     (case ctx_Err env log of
        Some e \<Rightarrow>
          (case Close env p log of
             (Panic, p', log') \<Rightarrow> (Panic, p', log')
           | (Return _, p', log') \<Rightarrow> (Return (None, Some e), p', log'))
      | None \<Rightarrow>
          (case conn p of
             None \<Rightarrow> (Panic, p, log)
           | Some _ \<Rightarrow>
               (case conn_Read env log of
                  Inr frame \<Rightarrow> (Return (Some frame, None), p, log @ [ConnRead])
                | Inl e \<Rightarrow>
                    (case Close env p (log @ [ConnRead]) of
                       (Panic, p', log') \<Rightarrow> (Panic, p', log')
                     | (Return _, p', log') \<Rightarrow>
                         (Return (None, Some (Wrap e ReadFirstFailed)), p', log')))))"

text \<open>
  One round of the loop of \<open>Start\<close>: it either goes on to the next round or leaves the
  loop, with the value to return or with a panic.
\<close>

datatype 'wf round =
    Continue "'wf Transport" "'wf call list"
  | Stop "error option outcome" "'wf Transport" "'wf call list"

definition leave :: "error \<Rightarrow> 'wf Transport \<Rightarrow> 'wf call list \<Rightarrow> 'wf round" where
  "leave err p log =
     (if err = io_EOF then Stop (Return None) p log
      else Stop (Return (Some (Wrap err DispatchFailed))) p log)"

definition Start_round :: "'wf env \<Rightarrow> 'wf Transport \<Rightarrow> 'wf call list \<Rightarrow> 'wf round" where
  "Start_round env p log =
     (case ctx_Err env log of
        Some e \<Rightarrow> Stop (Return (Some e)) p log
      | None \<Rightarrow>
          (case conn p of
             None \<Rightarrow> Stop Panic p log
           | Some _ \<Rightarrow>
               (case conn_Read env log of
                  Inl e \<Rightarrow> leave e p (log @ [ConnRead])
                | Inr f \<Rightarrow>
                    (case DispatchFrame env p (log @ [ConnRead]) f of
                       (Panic, p', log') \<Rightarrow> Stop Panic p' log'
                     | (Return None, p', log') \<Rightarrow> Continue p' log'
                     | (Return (Some e), p', log') \<Rightarrow> leave e p' log'))))"

text \<open>
  The loop may run for ever (a connection that keeps delivering frames); it is given fuel,
  and \<open>None\<close> means that the fuel ran out before the loop was left.
\<close>

fun Start_loop ::
  "'wf env \<Rightarrow> nat \<Rightarrow> 'wf Transport \<Rightarrow> 'wf call list
     \<Rightarrow> (error option outcome \<times> 'wf Transport \<times> 'wf call list) option" where
  "Start_loop env 0 p log = None"
| "Start_loop env (Suc fuel) p log =
     (case Start_round env p log of
        Continue p' log' \<Rightarrow> Start_loop env fuel p' log'
      | Stop r p' log' \<Rightarrow> Some (r, p', log'))"

text \<open>
  \<open>Start\<close>: the deferred \<open>p.Close()\<close> runs when the loop is left, also by a panic; its
  error is dropped, and a panic of its own replaces the result.
\<close>

definition Start ::
  "'wf env \<Rightarrow> nat \<Rightarrow> 'wf Transport \<Rightarrow> 'wf call list
     \<Rightarrow> (error option outcome \<times> 'wf Transport \<times> 'wf call list) option" where
  "Start env fuel p log =
     (case Start_loop env fuel p log of
        None \<Rightarrow> None
      | Some (r, p', log') \<Rightarrow>
          (case Close env p' log' of
             (Panic, p'', log'') \<Rightarrow> Some (Panic, p'', log'')
           | (Return _, p'', log'') \<Rightarrow> Some (r, p'', log'')))"

text \<open>
  The state after \<open>k\<close> rounds that all went on to the next round; \<open>None\<close> when the loop was
  left before.
\<close>

fun rounds :: "'wf env \<Rightarrow> nat \<Rightarrow> 'wf Transport \<Rightarrow> 'wf call list \<Rightarrow> ('wf Transport \<times> 'wf call list) option" where
  "rounds env 0 p log = Some (p, log)"
| "rounds env (Suc k) p log =
     (case Start_round env p log of
        Continue p' log' \<Rightarrow> rounds env k p' log'
      | Stop r p' log' \<Rightarrow> None)"

text \<open>\<open>Close\<close> called \<open>n\<close> times in a row: the results of the calls and the state after them.\<close>

fun Close_times ::
  "'wf env \<Rightarrow> nat \<Rightarrow> 'wf Transport \<Rightarrow> 'wf call list
     \<Rightarrow> error option outcome list \<times> 'wf Transport \<times> 'wf call list" where
  "Close_times env 0 p log = ([], p, log)"
| "Close_times env (Suc n) p log =
     (case Close env p log of
        (r, p', log') \<Rightarrow>
          (case Close_times env n p' log' of
             (rs, p'', log'') \<Rightarrow> (r # rs, p'', log'')))"

text \<open>
  The switch of \<open>DispatchFrame\<close> read as a table, for stating what it does: the frames
  for which it returns inside the switch (a MetadataPush frame with a stream id, an Error
  frame without one), the handler slot it reads for a frame type, and the fields it
  sets.
\<close>

definition returns_early :: "BufferedFrame \<Rightarrow> bool" where
  "returns_early frame =
     (Type (Header frame) = FrameTypeMetadataPush \<and> StreamID (Header frame) \<noteq> 0
      \<or> Type (Header frame) = FrameTypeError \<and> StreamID (Header frame) = 0)"

definition event_of :: "FrameType \<Rightarrow> EventType option" where
  "event_of t =
     (if t = FrameTypeSetup then Some OnSetup
      else if t = FrameTypeResume then Some OnResume
      else if t = FrameTypeResumeOK then Some OnResumeOK
      else if t = FrameTypeRequestFNF then Some OnFireAndForget
      else if t = FrameTypeMetadataPush then Some OnMetadataPush
      else if t = FrameTypeRequestResponse then Some OnRequestResponse
      else if t = FrameTypeRequestStream then Some OnRequestStream
      else if t = FrameTypeRequestChannel then Some OnRequestChannel
      else if t = FrameTypePayload then Some OnPayload
      else if t = FrameTypeRequestN then Some OnRequestN
      else if t = FrameTypeError then Some OnError
      else if t = FrameTypeCancel then Some OnCancel
      else if t = FrameTypeKeepalive then Some OnKeepalive
      else if t = FrameTypeLease then Some OnLease
      else None)"

definition switched :: "'wf Transport \<Rightarrow> BufferedFrame \<Rightarrow> 'wf Transport" where
  "switched p frame =
     (case Value frame of
        SetupFrame ml \<Rightarrow>
          if Type (Header frame) = FrameTypeSetup then p\<lparr>maxLifetime := ml\<rparr> else p
      | ResumeOKFrame pos \<Rightarrow>
          if Type (Header frame) = FrameTypeResumeOK then p\<lparr>lastRcvPos := pos\<rparr> else p
      | KeepaliveFrame pos \<Rightarrow>
          if Type (Header frame) = FrameTypeKeepalive then p\<lparr>lastRcvPos := pos\<rparr> else p
      | _ \<Rightarrow> p)"

text \<open>
  A connection for examples: it delivers the results of a script, one per read, and
  \<open>io.EOF\<close> after them; writes, flushes, deadlines and closing succeed; the clock shows the
  number of calls so far; the context is never done.
\<close>

definition scripted :: "(error + BufferedFrame) list \<Rightarrow> 'wf env" where
  "scripted script =
     \<lparr>conn_Read = (\<lambda>log. let k = count_list log ConnRead in
                     if k < length script then script ! k else Inl io_EOF),
      conn_Write = (\<lambda>log frame. None),
      conn_Flush = (\<lambda>log. None),
      conn_SetDeadline = (\<lambda>log t. None),
      conn_Close = (\<lambda>log. None),
      time_Now = (\<lambda>log. int (length log)),
      ctx_Err = (\<lambda>log. None)\<rparr>"

section \<open>Properties of the framing code\<close>

subsection \<open>Bits and bytes\<close>

lemma bit_below: "(w :: 'a::len word) < 2 ^ k \<Longrightarrow> bit w n \<Longrightarrow> n < k"
proof -
  assume a: "w < 2 ^ k" and b: "bit w n"
  from a have "w AND mask k = w" by (rule less_mask_eq)
  then have "bit (w AND mask k) n" using b by simp
  then show "n < k" by (simp add: bit_simps)
qed

lemma bit_below_64: "(t :: 8 word) < 64 \<Longrightarrow> bit t n \<Longrightarrow> n < 6"
  using bit_below [of t 6 n] by simp

lemma bit_below_1024: "(fl :: 16 word) < 1024 \<Longrightarrow> bit fl n \<Longrightarrow> n < 10"
  using bit_below [of fl 10 n] by simp

lemma bit_below_31: "(v :: 32 word) < 0x80000000 \<Longrightarrow> bit v n \<Longrightarrow> n < 31"
  using bit_below [of v 31 n] by simp

lemma Uint32_PutUint32:
  "Uint32 (ucast (drop_bit 24 v)) (ucast (drop_bit 16 v)) (ucast (drop_bit 8 v)) (ucast v) = v"
  unfolding Uint32_def
  apply (rule bit_word_eqI)
  subgoal for n
    apply (cases "n < 8"; cases "n < 16"; cases "n < 24")
           apply (auto simp add: bit_simps)
    done
  done

lemma Uint16_PutUint16: "Uint16 (ucast (drop_bit 8 v)) (ucast v) = v"
  unfolding Uint16_def
  apply (rule bit_word_eqI)
  subgoal for n
    apply (cases "n < 8")
     apply (auto simp add: bit_simps)
    done
  done

lemma type_unpacked:
  "t < 64 \<Longrightarrow> fl < 1024 \<Longrightarrow>
   ucast (drop_bit 10 (push_bit 10 (ucast (t :: 8 word)) OR (fl :: 16 word))) = t"
  apply (rule bit_word_eqI)
  apply (auto simp add: bit_simps dest: bit_below_64 bit_below_1024)
  done

lemma flag_unpacked:
  assumes "fl < 1024"
  shows "(push_bit 10 (ucast (t :: 8 word)) OR (fl :: 16 word)) AND 0x3FF = fl"
proof -
  have m: "(0x3FF :: 16 word) = mask 10"
    by (simp add: mask_eq_exp_minus_1)
  show ?thesis
    unfolding m
    apply (rule bit_word_eqI)
    using assms apply (auto simp add: bit_simps dest: bit_below_1024)
    done
qed

lemma split_three_bytes:
  "(l :: nat) div 65536 * 65536 + l div 256 mod 256 * 256 + l mod 256 = l"
proof -
  have a: "l div 65536 = l div 256 div 256"
    by (simp add: div_mult2_eq)
  have g: "q * 65536 + r * 256 = (q * 256 + r) * 256" for q r :: nat
    by simp
  have "l div 256 div 256 * 65536 + l div 256 mod 256 * 256
      = (l div 256 div 256 * 256 + l div 256 mod 256) * 256"
    by (rule g)
  also have "\<dots> = l div 256 * 256"
    by (simp only: div_mult_mod_eq)
  finally have "l div 65536 * 65536 + l div 256 mod 256 * 256 = l div 256 * 256"
    unfolding a .
  then show ?thesis
    by (simp only: div_mult_mod_eq)
qed

lemma Uint24_PutUint24:
  "l < 2 ^ 24 \<Longrightarrow> Uint24 (of_nat (l div 65536)) (of_nat (l div 256)) (of_nat l) = l"
  unfolding Uint24_def
  by (simp add: unat_of_nat split_three_bytes)

subsection \<open>Headers\<close>

lemma decode_header_raw:
  "decode_header (PutUint32 s @ PutUint16 n @ body) =
     (if bit s 31 then Inl ReservedBit
      else if (ucast (drop_bit 10 n) :: FrameType) \<notin> set known_types then Inl UnknownType
      else Inr (\<lparr>StreamID = s, Type = ucast (drop_bit 10 n), Flag = n AND 0x3FF\<rparr>, body))"
  by (simp add: PutUint32_def PutUint16_def Uint32_PutUint32 Uint16_PutUint16 Let_def)

lemma decode_header_bytes:
  assumes "valid_header h" and "Type h \<in> set known_types"
  shows "decode_header (header_bytes h @ body) = Inr (h, body)"
proof -
  from assms(1) have s: "StreamID h < 0x80000000" and t: "Type h < 64" and f: "Flag h < 1024"
    by (simp_all add: valid_header_def)
  let ?n = "push_bit 10 (ucast (Type h)) OR Flag h"
  have r: "\<not> bit (StreamID h) 31"
    using s by (auto dest: bit_below_31)
  have ty: "(ucast (drop_bit 10 ?n) :: FrameType) = Type h"
    using t f by (rule type_unpacked)
  have fl: "?n AND 0x3FF = Flag h"
    using f by (rule flag_unpacked)
  have "decode_header (header_bytes h @ body)
      = decode_header (PutUint32 (StreamID h) @ PutUint16 ?n @ body)"
    by (simp add: header_bytes_def)
  also have "\<dots> = Inr (\<lparr>StreamID = StreamID h, Type = Type h, Flag = Flag h\<rparr>, body)"
    unfolding decode_header_raw ty fl using r assms(2) by simp
  finally show ?thesis by simp
qed

lemma Payload_known: "FrameTypePayload \<in> set known_types"
  by (simp add: known_types_def)

subsection \<open>Writing to a buffer\<close>

lemma writePayload_buffer:
  "writePayload buffer_Write buf dat md =
     ((int (length (payload_bytes dat md)), None), buf @ payload_bytes dat md)"
  by (simp add: writePayload_def buffer_Write_def PutUint24_def payload_bytes_def)

lemma WriteTo_buffer:
  "WriteTo buffer_Write p buf =
     ((int (length (header_bytes (header p) @ payload_bytes (data p) (metadata p))), None),
      buf @ header_bytes (header p) @ payload_bytes (data p) (metadata p))"
  by (simp add: WriteTo_def FrameHeader_WriteTo_def writePayload_buffer buffer_Write_def Let_def)

lemma decode_payload_body_bytes:
  assumes "length md < 2 ^ 24" and "Check fg FlagMetadata \<longleftrightarrow> md \<noteq> []"
  shows "decode_payload_body fg (payload_bytes dat md) =
     Inr (if Check fg FlagMetadata then Some md else None, dat)"
  using assms by (simp add: payload_bytes_def PutUint24_def Uint24_PutUint24)

lemma Check_set: "Check (flag OR m) m"
  unfolding Check_def by (rule bit_word_eqI) (auto simp add: bit_simps)

subsection \<open>The Metadata flag of a new frame\<close>

text \<open>
  What the code does for every id, data, metadata and flag: the frame that
  \<open>NewWriteablePayloadFrame\<close> builds has the Metadata flag set exactly when the metadata are
  not empty or the caller passed the flag; \<open>Metadata()\<close> and \<open>MetadataUTF8()\<close> return the
  metadata with \<open>ok = true\<close> exactly when that flag is set, and nothing with \<open>ok = false\<close>
  otherwise. On the wire \<open>WriteTo\<close> puts the header, then the 24-bit length and the
  metadata when the metadata are not empty (and shorter than \<open>2 ^ 24\<close> bytes, so that the
  length fits), then the data: whether the length is there follows the metadata, not the
  flag.
\<close>

lemma NewWriteablePayloadFrame_flag:
  "Check (Flag (header (NewWriteablePayloadFrame sid dat md flag))) FlagMetadata
      = (length md > 0 \<or> Check flag FlagMetadata)"
  by (simp add: NewWriteablePayloadFrame_def NewFrameHeader_def Check_set)

lemma NewWriteablePayloadFrame_Metadata:
  "Metadata (NewWriteablePayloadFrame sid dat md flag)
      = (if length md > 0 \<or> Check flag FlagMetadata then (md, True) else ([], False))"
  "MetadataUTF8 (NewWriteablePayloadFrame sid dat md flag)
      = (if length md > 0 \<or> Check flag FlagMetadata then (md, True) else ([], False))"
proof -
  let ?p = "NewWriteablePayloadFrame sid dat md flag"
  have md: "metadata ?p = md"
    by (simp add: NewWriteablePayloadFrame_def)
  show "Metadata ?p
      = (if length md > 0 \<or> Check flag FlagMetadata then (md, True) else ([], False))"
    unfolding Metadata_def NewWriteablePayloadFrame_flag md by simp
  show "MetadataUTF8 ?p
      = (if length md > 0 \<or> Check flag FlagMetadata then (md, True) else ([], False))"
    unfolding MetadataUTF8_def NewWriteablePayloadFrame_flag md by simp
qed

lemma NewWriteablePayloadFrame_WriteTo:
  assumes "length md < 2 ^ 24"
  shows "WriteTo buffer_Write (NewWriteablePayloadFrame sid dat md flag) buf
      = ((int (length (header_bytes (header (NewWriteablePayloadFrame sid dat md flag))
                 @ (if md \<noteq> [] then PutUint24 (length md) @ md else []) @ dat)), None),
         buf @ header_bytes (header (NewWriteablePayloadFrame sid dat md flag))
           @ (if md \<noteq> [] then PutUint24 (length md) @ md else []) @ dat)"
proof -
  let ?p = "NewWriteablePayloadFrame sid dat md flag"
  have md: "metadata ?p = md" and dat: "data ?p = dat"
    by (simp_all add: NewWriteablePayloadFrame_def)
  show ?thesis
    unfolding WriteTo_buffer md dat by (simp add: payload_bytes_def)
qed

text \<open>
  C9. The code does not keep the wire part of the claim. For the frame built with stream
  id 1, the data \<open>68 69\<close>, no metadata and the Metadata flag passed by the caller, the flag
  is set in the header and \<open>Metadata()\<close> reports empty metadata with \<open>ok = true\<close>, as the
  claim says; but \<open>WriteTo\<close> writes the header \<open>00 00 00 01 29 00\<close> and then the data at
  once, where the wire format has the length \<open>00 00 00\<close> of the metadata between them.
\<close>

theorem flagged_frame_written_without_length:
  "Check (Flag (header (NewWriteablePayloadFrame 1 [0x68, 0x69] [] FlagMetadata))) FlagMetadata
   \<and> Metadata (NewWriteablePayloadFrame 1 [0x68, 0x69] [] FlagMetadata) = ([], True)
   \<and> MetadataUTF8 (NewWriteablePayloadFrame 1 [0x68, 0x69] [] FlagMetadata) = ([], True)
   \<and> WriteTo buffer_Write (NewWriteablePayloadFrame 1 [0x68, 0x69] [] FlagMetadata) []
       = ((8, None), [0, 0, 0, 1, 0x29, 0, 0x68, 0x69])
   \<and> encode_spec (NewWriteablePayloadFrame 1 [0x68, 0x69] [] FlagMetadata)
       = [0, 0, 0, 1, 0x29, 0, 0, 0, 0, 0x68, 0x69]"
proof -
  let ?p = "NewWriteablePayloadFrame 1 [0x68, 0x69] [] FlagMetadata"
  have c: "Check FlagMetadata FlagMetadata"
    by (simp add: Check_def)
  have h: "header ?p = \<lparr>StreamID = 1, Type = FrameTypePayload, Flag = FlagMetadata\<rparr>"
    and md: "metadata ?p = []" and dat: "data ?p = [0x68, 0x69]"
    by (simp_all add: NewWriteablePayloadFrame_def NewFrameHeader_def)
  have hb: "header_bytes (header ?p) = [0, 0, 0, 1, 0x29, 0]"
    unfolding h
    by (simp add: header_bytes_def PutUint32_def PutUint16_def FlagMetadata_def)
  have f: "Check (Flag (header ?p)) FlagMetadata"
    unfolding h using c by simp
  have m: "Metadata ?p = ([], True)"
    unfolding Metadata_def using f md by simp
  have u: "MetadataUTF8 ?p = ([], True)"
    unfolding MetadataUTF8_def using f md by simp
  have w: "WriteTo buffer_Write ?p [] = ((8, None), [0, 0, 0, 1, 0x29, 0, 0x68, 0x69])"
    unfolding WriteTo_buffer hb md dat by (simp add: payload_bytes_def)
  have e: "encode_spec ?p = [0, 0, 0, 1, 0x29, 0, 0, 0, 0, 0x68, 0x69]"
    unfolding encode_spec_def m hb by (simp add: Data_def dat PutUint24_def)
  show ?thesis
    by (intro conjI) (rule f, rule m, rule u, rule w, rule e)
qed

subsection \<open>Decoding what was written\<close>

text \<open>
  The encoding of the spec comes back from the decoder, for every Payload frame with a
  valid header and metadata shorter than \<open>2 ^ 24\<close> bytes, whether or not the flag and the
  metadata agree.
\<close>

lemma decode_encode_spec:
  assumes "valid_header (header p)" and "Type (header p) = FrameTypePayload"
    and "length (metadata p) < 2 ^ 24"
  shows "decode (encode_spec p) = Inr (frame_of p)"
proof -
  have k: "Type (header p) \<in> set known_types"
    using assms(2) Payload_known by simp
  have h: "decode_header (header_bytes (header p) @ body) = Inr (header p, body)" for body
    using assms(1) k by (rule decode_header_bytes)
  show ?thesis
  proof (cases "Check (Flag (header p)) FlagMetadata")
    case True
    then have e: "encode_spec p
        = header_bytes (header p) @ PutUint24 (length (metadata p)) @ metadata p @ data p"
      by (simp add: encode_spec_def Metadata_def Data_def)
    have "decode_payload_body (Flag (header p))
             (PutUint24 (length (metadata p)) @ metadata p @ data p)
        = Inr (Some (metadata p), data p)"
      using True assms(3) by (simp add: PutUint24_def Uint24_PutUint24)
    then show ?thesis
      unfolding e decode_def h using True assms(2)
      by (simp add: frame_of_def Metadata_def Data_def)
  next
    case False
    then have e: "encode_spec p = header_bytes (header p) @ data p"
      by (simp add: encode_spec_def Metadata_def Data_def)
    show ?thesis
      unfolding e decode_def h using False assms(2)
      by (simp add: frame_of_def Metadata_def Data_def)
  qed
qed

text \<open>
  What \<open>WriteTo\<close> writes comes back where the flag and the metadata agree: for a Payload
  frame with a valid header, metadata shorter than \<open>2 ^ 24\<close> bytes, and the Metadata flag
  set exactly when the metadata are not empty.
\<close>

lemma decode_WriteTo_agreeing:
  assumes "StreamID (header p) < 0x80000000"
    and "Type (header p) = FrameTypePayload"
    and "Flag (header p) < 1024"
    and "length (metadata p) < 2 ^ 24"
    and "Check (Flag (header p)) FlagMetadata \<longleftrightarrow> metadata p \<noteq> []"
  shows "\<exists>n bs. WriteTo buffer_Write p [] = ((n, None), bs) \<and> decode bs = Inr (frame_of p)"
proof -
  have v: "valid_header (header p)"
    using assms(1-3) by (simp add: valid_header_def)
  have k: "Type (header p) \<in> set known_types"
    using assms(2) Payload_known by simp
  have h: "decode_header (header_bytes (header p) @ payload_bytes (data p) (metadata p)) =
      Inr (header p, payload_bytes (data p) (metadata p))"
    using v k by (rule decode_header_bytes)
  have b: "decode_payload_body (Flag (header p)) (payload_bytes (data p) (metadata p)) =
      Inr (if Check (Flag (header p)) FlagMetadata then Some (metadata p) else None, data p)"
    using assms(4,5) by (rule decode_payload_body_bytes)
  have "decode (header_bytes (header p) @ payload_bytes (data p) (metadata p)) = Inr (frame_of p)"
    unfolding decode_def h using b assms(2)
    by (simp add: frame_of_def Metadata_def Data_def)
  then show ?thesis
    by (simp add: WriteTo_buffer)
qed

text \<open>
  No way of writing the payload from the data and the metadata alone lets both a frame
  without the Metadata flag and a frame with the flag and no metadata come back from the
  decoder: if the first comes back, the second does not.
\<close>

lemma no_payload_writer_roundtrips:
  fixes wp :: "byte list \<Rightarrow> byte list \<Rightarrow> byte list"
  assumes plain:
    "decode (header_bytes (header (NewWriteablePayloadFrame 1 [0, 0, 0] [] 0)) @ wp [0, 0, 0] [])
       = Inr (frame_of (NewWriteablePayloadFrame 1 [0, 0, 0] [] 0))"
  shows
    "decode (header_bytes (header (NewWriteablePayloadFrame 1 [0, 0, 0] [] FlagMetadata))
        @ wp [0, 0, 0] [])
       \<noteq> Inr (frame_of (NewWriteablePayloadFrame 1 [0, 0, 0] [] FlagMetadata))"
proof -
  let ?h0 = "\<lparr>StreamID = 1, Type = FrameTypePayload, Flag = 0\<rparr>"
  let ?h1 = "\<lparr>StreamID = 1, Type = FrameTypePayload, Flag = FlagMetadata\<rparr>"
  have c0: "\<not> Check 0 FlagMetadata" and c1: "Check FlagMetadata FlagMetadata"
    by (simp_all add: Check_def FlagMetadata_def)
  have h0: "header (NewWriteablePayloadFrame 1 [0, 0, 0] [] 0) = ?h0"
    and h1: "header (NewWriteablePayloadFrame 1 [0, 0, 0] [] FlagMetadata) = ?h1"
    by (simp_all add: NewWriteablePayloadFrame_def NewFrameHeader_def)
  have f0: "frame_of (NewWriteablePayloadFrame 1 [0, 0, 0] [] 0) = Payload ?h0 None [0, 0, 0]"
    using c0 by (simp add: NewWriteablePayloadFrame_def NewFrameHeader_def frame_of_def
        Metadata_def Data_def)
  have f1: "frame_of (NewWriteablePayloadFrame 1 [0, 0, 0] [] FlagMetadata)
      = Payload ?h1 (Some []) [0, 0, 0]"
    using c1 by (simp add: NewWriteablePayloadFrame_def NewFrameHeader_def frame_of_def
        Metadata_def Data_def)
  have d0: "decode_header (header_bytes ?h0 @ body) = Inr (?h0, body)" for body
    by (rule decode_header_bytes) (simp_all add: valid_header_def known_types_def)
  have d1: "decode_header (header_bytes ?h1 @ body) = Inr (?h1, body)" for body
    by (rule decode_header_bytes)
      (simp_all add: valid_header_def known_types_def FlagMetadata_def)
  have "decode (header_bytes ?h0 @ body) = Inr (Payload ?h0 None body)" for body
    using c0 by (simp add: decode_def d0)
  with plain have body: "wp [0, 0, 0] [] = [0, 0, 0]"
    by (simp add: h0 f0)
  have "decode (header_bytes ?h1 @ [0, 0, 0]) = Inr (Payload ?h1 (Some []) [])"
    using c1 by (simp add: decode_def d1 Uint24_def)
  then show ?thesis
    by (simp add: h1 f1 body)
qed

text \<open>
  C1. The code does not keep the claim. The frame built with stream id 1, the three data
  bytes \<open>00 00 00\<close>, no metadata and the Metadata flag passed by the caller has valid
  fields. \<open>WriteTo\<close> writes its header and its data without error; the decoder, seeing the
  flag, reads the data as the length of empty metadata and gives back a frame with no
  data, which is not the frame that was written. The encoding of the spec, with the
  length \<open>00 00 00\<close> in front of the data, decodes to the frame itself.
\<close>

theorem flagged_frame_not_decoded:
  "valid_header (header (NewWriteablePayloadFrame 1 [0, 0, 0] [] FlagMetadata))
   \<and> snd (fst (WriteTo buffer_Write (NewWriteablePayloadFrame 1 [0, 0, 0] [] FlagMetadata) [])) = None
   \<and> decode (snd (WriteTo buffer_Write (NewWriteablePayloadFrame 1 [0, 0, 0] [] FlagMetadata) []))
       = Inr (Payload \<lparr>StreamID = 1, Type = FrameTypePayload, Flag = FlagMetadata\<rparr> (Some []) [])
   \<and> frame_of (NewWriteablePayloadFrame 1 [0, 0, 0] [] FlagMetadata)
       = Payload \<lparr>StreamID = 1, Type = FrameTypePayload, Flag = FlagMetadata\<rparr> (Some []) [0, 0, 0]
   \<and> decode (snd (WriteTo buffer_Write (NewWriteablePayloadFrame 1 [0, 0, 0] [] FlagMetadata) []))
       \<noteq> Inr (frame_of (NewWriteablePayloadFrame 1 [0, 0, 0] [] FlagMetadata))
   \<and> decode (encode_spec (NewWriteablePayloadFrame 1 [0, 0, 0] [] FlagMetadata))
       = Inr (frame_of (NewWriteablePayloadFrame 1 [0, 0, 0] [] FlagMetadata))"
proof -
  let ?p = "NewWriteablePayloadFrame 1 [0, 0, 0] [] FlagMetadata"
  let ?h = "\<lparr>StreamID = 1, Type = FrameTypePayload, Flag = FlagMetadata\<rparr>"
  have c: "Check FlagMetadata FlagMetadata"
    by (simp add: Check_def)
  have h: "header ?p = ?h"
    by (simp add: NewWriteablePayloadFrame_def NewFrameHeader_def)
  have vh: "valid_header ?h"
    by (simp add: valid_header_def FlagMetadata_def)
  have v: "valid_header (header ?p)"
    unfolding h by (rule vh)
  have ok: "snd (fst (WriteTo buffer_Write ?p [])) = None"
    unfolding WriteTo_buffer by simp
  have w: "snd (WriteTo buffer_Write ?p []) = header_bytes ?h @ [0, 0, 0]"
    by (simp add: WriteTo_buffer payload_bytes_def NewWriteablePayloadFrame_def
        NewFrameHeader_def)
  have dh: "decode_header (header_bytes ?h @ [0, 0, 0]) = Inr (?h, [0, 0, 0])"
    using vh by (rule decode_header_bytes) (simp add: known_types_def)
  have d: "decode (snd (WriteTo buffer_Write ?p [])) = Inr (Payload ?h (Some []) [])"
    unfolding w using c by (simp add: decode_def dh Uint24_def)
  have f: "frame_of ?p = Payload ?h (Some []) [0, 0, 0]"
    using c by (simp add: NewWriteablePayloadFrame_def NewFrameHeader_def frame_of_def
        Metadata_def Data_def)
  have n: "decode (snd (WriteTo buffer_Write ?p [])) \<noteq> Inr (frame_of ?p)"
    unfolding d f by simp
  have s: "decode (encode_spec ?p) = Inr (frame_of ?p)"
    using v by (rule decode_encode_spec)
      (simp_all add: NewWriteablePayloadFrame_def NewFrameHeader_def)
  show ?thesis
    by (intro conjI) (rule v, rule ok, rule d, rule f, rule n, rule s)
qed

section \<open>Properties of the transport\<close>

subsection \<open>The switch and the tail of the dispatcher\<close>

lemma DispatchFrame_tail:
  assumes "well_typed frame" and "\<not> returns_early frame"
  shows "DispatchFrame env p log frame
     = dispatch_tail env (switched p frame) log frame (event_of (Type (Header frame)))"
proof (cases "Value frame")
  case (SetupFrame ml)
  then show ?thesis using assms
    by (auto simp add: DispatchFrame_def well_typed_def returns_early_def switched_def event_of_def
        Let_def split: if_splits)
next
  case (ResumeOKFrame pos)
  then show ?thesis using assms
    by (auto simp add: DispatchFrame_def well_typed_def returns_early_def switched_def event_of_def
        Let_def split: if_splits)
next
  case (KeepaliveFrame pos)
  then show ?thesis using assms
    by (auto simp add: DispatchFrame_def well_typed_def returns_early_def switched_def event_of_def
        Let_def split: if_splits)
next
  case (ErrorFrame code dat)
  then show ?thesis using assms
    by (auto simp add: DispatchFrame_def well_typed_def returns_early_def switched_def event_of_def
        Let_def split: if_splits)
next
  case (OtherFrame x)
  then show ?thesis using assms
    by (auto simp add: DispatchFrame_def well_typed_def returns_early_def switched_def event_of_def
        Let_def split: if_splits)
qed

lemma dispatch_tail_transport: "fst (snd (dispatch_tail env p log frame sel)) = p"
  by (simp add: dispatch_tail_def Let_def split: option.splits)

lemma dispatch_tail_deadline:
  assumes "conn p = Some c"
  shows "\<exists>rest. snd (snd (dispatch_tail env p log frame sel))
     = log @ ConnSetDeadline (time_Now env log + maxLifetime p) # rest"
  using assms by (simp add: dispatch_tail_def Let_def split: option.splits)

lemma dispatch_tail_handled:
  assumes "conn p = Some c"
    and "conn_SetDeadline env log (time_Now env log + maxLifetime p) = None"
    and "getHandler p ev = Some h"
  shows "dispatch_tail env p log frame (Some ev)
     = (Return (map_option (\<lambda>e. Wrap e (HandleFrameFailed (Type (Header frame))))
                 (h (log @ [ConnSetDeadline (time_Now env log + maxLifetime p)]) frame)),
        p,
        log @ [ConnSetDeadline (time_Now env log + maxLifetime p), CallHandler ev frame])"
  using assms by (simp add: dispatch_tail_def Let_def split: option.splits)

lemma dispatch_tail_no_handler:
  assumes "conn p = Some c"
    and "conn_SetDeadline env log (time_Now env log + maxLifetime p) = None"
    and "case sel of None \<Rightarrow> True | Some ev \<Rightarrow> getHandler p ev = None"
  shows "dispatch_tail env p log frame sel
     = (Return (Some errNoHandler), p,
        log @ [ConnSetDeadline (time_Now env log + maxLifetime p)])"
  using assms by (auto simp add: dispatch_tail_def Let_def split: option.splits)

lemma DispatchFrame_transport:
  "conn (fst (snd (DispatchFrame env p log frame))) = conn p
   \<and> once (fst (snd (DispatchFrame env p log frame))) = once p
   \<and> handlers (fst (snd (DispatchFrame env p log frame))) = handlers p"
  by (simp add: DispatchFrame_def Let_def dispatch_tail_transport
      split: FrameValue.splits option.splits)

lemma switched_fields:
  "conn (switched p frame) = conn p \<and> once (switched p frame) = once p
   \<and> handlers (switched p frame) = handlers p"
  by (simp add: switched_def split: FrameValue.splits)

lemma returns_early_log:
  assumes "well_typed frame" and "returns_early frame"
  shows "snd (snd (DispatchFrame env p log frame)) = log @ [LoggerWarnf (StreamID (Header frame))]
       \<or> snd (snd (DispatchFrame env p log frame)) = log @ [CallHandler OnErrorWithZeroStreamID frame]
       \<or> snd (snd (DispatchFrame env p log frame)) = log"
  using assms
  by (auto simp add: DispatchFrame_def well_typed_def returns_early_def Let_def
      split: FrameValue.splits option.splits if_splits)

subsection \<open>Closing\<close>

lemma Close_once: "once (fst (snd (Close env p log)))"
  by (simp add: Close_def split: option.splits)

lemma Close_done: "once p \<Longrightarrow> Close env p log = (Return None, p, log)"
  by (simp add: Close_def)

lemma Close_times_done:
  "once p \<Longrightarrow> Close_times env n p log = (replicate n (Return None), p, log)"
  by (induction n) (simp_all add: Close_done replicate_app_Cons_same)

lemma Close_count:
  "count_list (snd (snd (Close env p log))) ConnClose \<le> count_list log ConnClose + 1"
  by (simp add: Close_def split: option.splits)

subsection \<open>The loop of Start\<close>

lemma leave_cases:
  "leave e p log = (if e = io_EOF then Stop (Return None) p log
                    else Stop (Return (Some (Wrap e DispatchFailed))) p log)"
  by (simp add: leave_def)

lemma Start_round_transport:
  assumes "Start_round env p log = Continue p' log' \<or> Start_round env p log = Stop r p' log'"
  shows "conn p' = conn p \<and> once p' = once p"
proof (cases "ctx_Err env log")
  case (Some e)
  with assms show ?thesis
    by (auto simp add: Start_round_def)
next
  case None
  note ctx = this
  show ?thesis
  proof (cases "conn p")
    case None
    with assms ctx show ?thesis
      by (auto simp add: Start_round_def)
  next
    case (Some c)
    note cn = this
    show ?thesis
    proof (cases "conn_Read env log")
      case (Inl e)
      with assms ctx cn show ?thesis
        by (auto simp add: Start_round_def leave_def split: if_splits)
    next
      case (Inr f)
      obtain o' q l where d: "DispatchFrame env p (log @ [ConnRead]) f = (o', q, l)"
        by (cases "DispatchFrame env p (log @ [ConnRead]) f") auto
      have q: "conn q = conn p \<and> once q = once p"
        using DispatchFrame_transport [of env p "log @ [ConnRead]" f] d by simp
      from assms ctx cn Inr d have "p' = q"
        by (auto simp add: Start_round_def leave_def
            split: if_splits outcome.splits option.splits)
      with q show ?thesis by simp
    qed
  qed
qed

lemma rounds_transport:
  "rounds env k p log = Some (p1, log1) \<Longrightarrow> conn p1 = conn p \<and> once p1 = once p"
proof (induction k arbitrary: p log)
  case 0
  then show ?case by simp
next
  case (Suc k)
  then obtain p' log' where c: "Start_round env p log = Continue p' log'"
    and r: "rounds env k p' log' = Some (p1, log1)"
    by (auto split: round.splits)
  from Suc.IH [OF r] Start_round_transport [of env p log p' log'] c
  show ?case by simp
qed

lemma Start_loop_rounds:
  "rounds env k p log = Some (p1, log1) \<Longrightarrow> Start_round env p1 log1 = Stop r p2 log2 \<Longrightarrow>
   Start_loop env (Suc k + m) p log = Some (r, p2, log2)"
proof (induction k arbitrary: p log)
  case 0
  then show ?case by simp
next
  case (Suc k)
  then obtain p' log' where c: "Start_round env p log = Continue p' log'"
    and r: "rounds env k p' log' = Some (p1, log1)"
    by (auto split: round.splits)
  from Suc.IH [OF r Suc.prems(2)] c show ?case by simp
qed

lemma rounds_Suc:
  "rounds env k p log = Some (p1, log1) \<Longrightarrow> Start_round env p1 log1 = Continue p2 log2 \<Longrightarrow>
   rounds env (Suc k) p log = Some (p2, log2)"
proof (induction k arbitrary: p log)
  case 0
  then show ?case by simp
next
  case (Suc k)
  then obtain p' log' where c: "Start_round env p log = Continue p' log'"
    and r: "rounds env k p' log' = Some (p1, log1)"
    by (auto split: round.splits)
  from Suc.IH [OF r Suc.prems(2)] c show ?case by simp
qed

lemma Start_after_rounds:
  assumes "rounds env k p log = Some (p1, log1)"
    and "Start_round env p1 log1 = Stop (Return r) p2 log2"
    and "k < n" and "conn p = Some c"
  shows "Start env n p log
     = Some (Return r, p2\<lparr>once := True\<rparr>, if once p2 then log2 else log2 @ [ConnClose])"
proof -
  from assms(3) obtain m where n: "n = Suc k + m"
    using less_imp_Suc_add by auto
  have l: "Start_loop env n p log = Some (Return r, p2, log2)"
    unfolding n using assms(1,2) by (rule Start_loop_rounds)
  have "conn p1 = conn p"
    using rounds_transport [OF assms(1)] by simp
  moreover have "conn p2 = conn p1"
    using Start_round_transport [of env p1 log1 p2 log2 "Return r"] assms(2) by simp
  ultimately have c2: "conn p2 = Some c"
    using assms(4) by simp
  show ?thesis
    unfolding Start_def l using c2 by (simp add: Close_def)
qed

lemma Start_once:
  assumes "Start env n p log = Some (r, p', log')"
  shows "once p'"
proof -
  from assms obtain r0 p0 l0 where "Start_loop env n p log = Some (r0, p0, l0)"
    by (auto simp add: Start_def split: option.splits)
  with assms have "p' = fst (snd (Close env p0 l0))"
    by (auto simp add: Start_def split: prod.splits outcome.splits)
  then show ?thesis
    by (simp add: Close_once)
qed

subsection \<open>Send\<close>

text \<open>
  C8. \<open>Send(frame, flush)\<close> returns the \<open>TransportClosed\<close> error when the transport or
  its connection is nil; otherwise it writes the frame, flushes only when \<open>flush\<close> is
  true, and calls the frame's \<open>Done\<close> hook exactly when the whole operation (the write,
  and the flush when asked for) succeeded: on any error the hook is not called.
\<close>

theorem Send_Done_on_success:
  "Send env None log frame flush = (Some errTransportClosed, log)
   \<and> (conn t = None \<longrightarrow> Send env (Some t) log frame flush = (Some errTransportClosed, log))
   \<and> (conn t = Some c \<and> conn_Write env log frame = Some e \<longrightarrow>
        Send env (Some t) log frame flush = (Some e, log @ [ConnWrite frame]))
   \<and> (conn t = Some c \<and> conn_Write env log frame = None \<and> \<not> flush \<longrightarrow>
        Send env (Some t) log frame flush = (None, log @ [ConnWrite frame, FrameDone frame]))
   \<and> (conn t = Some c \<and> conn_Write env log frame = None \<and> flush
        \<and> conn_Flush env (log @ [ConnWrite frame]) = None \<longrightarrow>
        Send env (Some t) log frame flush
          = (None, log @ [ConnWrite frame, ConnFlush, FrameDone frame]))
   \<and> (conn t = Some c \<and> conn_Write env log frame = None \<and> flush
        \<and> conn_Flush env (log @ [ConnWrite frame]) = Some e \<longrightarrow>
        Send env (Some t) log frame flush = (Some e, log @ [ConnWrite frame, ConnFlush]))
   \<and> count_list (snd (Send env p log frame flush)) (FrameDone frame)
        = count_list log (FrameDone frame) + (if fst (Send env p log frame flush) = None then 1 else 0)"
proof -
  have a: "Send env None log frame flush = (Some errTransportClosed, log)"
    by (simp add: Send_def Send_body_def)
  have b: "conn t = None \<longrightarrow> Send env (Some t) log frame flush = (Some errTransportClosed, log)"
    by (simp add: Send_def Send_body_def)
  have c: "conn t = Some c \<and> conn_Write env log frame = Some e \<longrightarrow>
        Send env (Some t) log frame flush = (Some e, log @ [ConnWrite frame])"
    by (simp add: Send_def Send_body_def)
  have d: "conn t = Some c \<and> conn_Write env log frame = None \<and> \<not> flush \<longrightarrow>
        Send env (Some t) log frame flush = (None, log @ [ConnWrite frame, FrameDone frame])"
    by (simp add: Send_def Send_body_def)
  have e: "conn t = Some c \<and> conn_Write env log frame = None \<and> flush
        \<and> conn_Flush env (log @ [ConnWrite frame]) = None \<longrightarrow>
        Send env (Some t) log frame flush
          = (None, log @ [ConnWrite frame, ConnFlush, FrameDone frame])"
    by (simp add: Send_def Send_body_def)
  have f: "conn t = Some c \<and> conn_Write env log frame = None \<and> flush
        \<and> conn_Flush env (log @ [ConnWrite frame]) = Some e \<longrightarrow>
        Send env (Some t) log frame flush = (Some e, log @ [ConnWrite frame, ConnFlush])"
    by (simp add: Send_def Send_body_def)
  have g: "count_list (snd (Send env p log frame flush)) (FrameDone frame)
        = count_list log (FrameDone frame) + (if fst (Send env p log frame flush) = None then 1 else 0)"
    by (simp add: Send_def Send_body_def Let_def split: option.splits)
  show ?thesis
    by (intro conjI) (rule a, rule b, rule c, rule d, rule e, rule f, rule g)
qed

text \<open>
  A transport on a connection that takes every write and flush: the frame is written,
  flushed and released; on a connection whose write fails, the error comes back and the
  frame is not released.
\<close>

theorem Send_Done_on_success_witness:
  "conn (NewTransport (Some (Conn 0)) :: nat Transport) = Some (Conn 0)
   \<and> conn_Write (scripted []) [] (7 :: nat) = None
   \<and> conn_Flush (scripted []) [ConnWrite (7 :: nat)] = None
   \<and> Send (scripted []) (Some (NewTransport (Some (Conn 0)))) [] (7 :: nat) True
        = (None, [ConnWrite 7, ConnFlush, FrameDone 7])
   \<and> conn_Write ((scripted []) \<lparr>conn_Write := (\<lambda>log frame. Some (OtherError 1))\<rparr>) [] (7 :: nat)
        = Some (OtherError 1)
   \<and> Send ((scripted []) \<lparr>conn_Write := (\<lambda>log frame. Some (OtherError 1))\<rparr>)
        (Some (NewTransport (Some (Conn 0)))) [] (7 :: nat) True
        = (Some (OtherError 1), [ConnWrite 7])"
  using Send_Done_on_success [where env = "scripted []" and log = "[]" and frame = "7 :: nat"
      and flush = True and t = "NewTransport (Some (Conn 0))" and c = "Conn 0"]
    Send_Done_on_success [where env = "(scripted []) \<lparr>conn_Write := (\<lambda>log frame. Some (OtherError 1))\<rparr>"
      and log = "[]" and frame = "7 :: nat" and e = "OtherError 1"
      and flush = True and t = "NewTransport (Some (Conn 0))" and c = "Conn 0"]
  by (simp add: scripted_def NewTransport_def)

subsection \<open>Close\<close>

text \<open>
  C10. \<open>Close\<close> is idempotent: over any number of calls, \<open>Close\<close> of the connection is
  called at most once, by the first call; every later call returns nil and leaves the
  transport and the connection as they are.
\<close>

theorem Close_idempotent:
  "Close_times env (Suc n) p log
     = (fst (Close env p log) # replicate n (Return None), snd (Close env p log))
   \<and> count_list (snd (snd (Close_times env n p log))) ConnClose \<le> count_list log ConnClose + 1"
proof -
  obtain r p' log' where c: "Close env p log = (r, p', log')"
    by (cases "Close env p log") auto
  have o: "once p'"
    using Close_once [of env p log] c by simp
  have a: "Close_times env (Suc n) p log
     = (fst (Close env p log) # replicate n (Return None), snd (Close env p log))"
    by (simp add: c Close_times_done [OF o])
  have b: "count_list (snd (snd (Close_times env m p log))) ConnClose \<le> count_list log ConnClose + 1"
    for m
  proof (cases m)
    case 0
    then show ?thesis by simp
  next
    case (Suc k)
    have "Close_times env (Suc k) p log
     = (fst (Close env p log) # replicate k (Return None), snd (Close env p log))"
      by (simp add: c Close_times_done [OF o])
    then show ?thesis
      using Close_count [of env p log] Suc by simp
  qed
  show ?thesis
    by (intro conjI) (rule a, rule b)
qed

text \<open>
  Three calls on a connection whose \<open>Close\<close> fails: the first call returns the
  connection's error, the other two return nil, and the connection is closed once.
\<close>

theorem Close_idempotent_witness:
  "Close_times ((scripted []) \<lparr>conn_Close := (\<lambda>log. Some (OtherError 9))\<rparr>) (Suc (Suc (Suc 0)))
      (NewTransport (Some (Conn 0)) :: nat Transport) []
     = ([Return (Some (OtherError 9)), Return None, Return None],
        (NewTransport (Some (Conn 0))) \<lparr>once := True\<rparr>, [ConnClose])"
  using Close_idempotent [where env = "(scripted []) \<lparr>conn_Close := (\<lambda>log. Some (OtherError 9))\<rparr>"
      and n = "Suc (Suc 0)" and p = "NewTransport (Some (Conn 0)) :: nat Transport" and log = "[]"]
  by (simp add: scripted_def NewTransport_def Close_def)

subsection \<open>MetadataPush frames\<close>

text \<open>
  C6. A MetadataPush frame with a non-zero stream id is dropped: \<open>DispatchFrame\<close> logs a
  warning, calls no handler and returns nil, and the loop of \<open>Start\<close> goes on; a
  MetadataPush frame with stream id 0 goes to the \<open>OnMetadataPush\<close> handler.
\<close>

theorem MetadataPush_dispatch:
  assumes "Type (Header frame) = FrameTypeMetadataPush"
  shows "(StreamID (Header frame) \<noteq> 0 \<longrightarrow>
            DispatchFrame env p log frame
              = (Return None, p, log @ [LoggerWarnf (StreamID (Header frame))]))
       \<and> (StreamID (Header frame) = 0 \<longrightarrow>
            DispatchFrame env p log frame = dispatch_tail env p log frame (Some OnMetadataPush))
       \<and> (StreamID (Header frame) = 0 \<and> conn p = Some c
            \<and> conn_SetDeadline env log (time_Now env log + maxLifetime p) = None
            \<and> getHandler p OnMetadataPush = Some h \<longrightarrow>
            DispatchFrame env p log frame
              = (Return (map_option (\<lambda>e. Wrap e (HandleFrameFailed FrameTypeMetadataPush))
                          (h (log @ [ConnSetDeadline (time_Now env log + maxLifetime p)]) frame)),
                 p,
                 log @ [ConnSetDeadline (time_Now env log + maxLifetime p),
                        CallHandler OnMetadataPush frame]))
       \<and> (StreamID (Header frame) \<noteq> 0 \<and> ctx_Err env log = None \<and> conn p = Some c
            \<and> conn_Read env log = Inr frame \<longrightarrow>
            Start_round env p log
              = Continue p (log @ [ConnRead, LoggerWarnf (StreamID (Header frame))]))"
proof -
  have a: "StreamID (Header frame) \<noteq> 0 \<longrightarrow>
            DispatchFrame env p log frame
              = (Return None, p, log @ [LoggerWarnf (StreamID (Header frame))])"
    using assms by (simp add: DispatchFrame_def Let_def)
  have b: "StreamID (Header frame) = 0 \<longrightarrow>
            DispatchFrame env p log frame = dispatch_tail env p log frame (Some OnMetadataPush)"
    using assms by (simp add: DispatchFrame_def Let_def)
  have c: "StreamID (Header frame) = 0 \<and> conn p = Some c
            \<and> conn_SetDeadline env log (time_Now env log + maxLifetime p) = None
            \<and> getHandler p OnMetadataPush = Some h \<longrightarrow>
            DispatchFrame env p log frame
              = (Return (map_option (\<lambda>e. Wrap e (HandleFrameFailed FrameTypeMetadataPush))
                          (h (log @ [ConnSetDeadline (time_Now env log + maxLifetime p)]) frame)),
                 p,
                 log @ [ConnSetDeadline (time_Now env log + maxLifetime p),
                        CallHandler OnMetadataPush frame])"
    using b assms by (auto simp add: dispatch_tail_handled)
  have d: "StreamID (Header frame) \<noteq> 0 \<and> ctx_Err env log = None \<and> conn p = Some c
            \<and> conn_Read env log = Inr frame \<longrightarrow>
            Start_round env p log
              = Continue p (log @ [ConnRead, LoggerWarnf (StreamID (Header frame))])"
    using assms by (simp add: Start_round_def DispatchFrame_def Let_def)
  show ?thesis
    by (intro conjI) (rule a, rule b, rule c, rule d)
qed

text \<open>
  With a handler registered for \<open>OnMetadataPush\<close>: the frame with stream id 1 is dropped
  with a warning, the frame with stream id 0 reaches the handler.
\<close>

theorem MetadataPush_dispatch_witness:
  "Type (Header \<lparr>Header = \<lparr>StreamID = 1, Type = FrameTypeMetadataPush, Flag = 0\<rparr>,
                  Value = OtherFrame []\<rparr>) = FrameTypeMetadataPush
   \<and> DispatchFrame (scripted [])
        (Handle (NewTransport (Some (Conn 0)) :: nat Transport) OnMetadataPush (Some (\<lambda>log f. None))) []
        \<lparr>Header = \<lparr>StreamID = 1, Type = FrameTypeMetadataPush, Flag = 0\<rparr>, Value = OtherFrame []\<rparr>
      = (Return None,
         Handle (NewTransport (Some (Conn 0))) OnMetadataPush (Some (\<lambda>log f. None)),
         [LoggerWarnf 1])
   \<and> DispatchFrame (scripted [])
        (Handle (NewTransport (Some (Conn 0)) :: nat Transport) OnMetadataPush (Some (\<lambda>log f. None))) []
        \<lparr>Header = \<lparr>StreamID = 0, Type = FrameTypeMetadataPush, Flag = 0\<rparr>, Value = OtherFrame []\<rparr>
      = (Return None,
         Handle (NewTransport (Some (Conn 0))) OnMetadataPush (Some (\<lambda>log f. None)),
         [ConnSetDeadline 90000000000,
          CallHandler OnMetadataPush
            \<lparr>Header = \<lparr>StreamID = 0, Type = FrameTypeMetadataPush, Flag = 0\<rparr>,
             Value = OtherFrame []\<rparr>])"
proof -
  let ?env = "scripted [] :: nat env"
  let ?p = "Handle (NewTransport (Some (Conn 0)) :: nat Transport) OnMetadataPush (Some (\<lambda>log f. None))"
  let ?f1 = "\<lparr>Header = \<lparr>StreamID = 1, Type = FrameTypeMetadataPush, Flag = 0\<rparr>,
             Value = OtherFrame []\<rparr>"
  let ?f0 = "\<lparr>Header = \<lparr>StreamID = 0, Type = FrameTypeMetadataPush, Flag = 0\<rparr>,
             Value = OtherFrame []\<rparr>"
  have t1: "Type (Header ?f1) = FrameTypeMetadataPush" and t0: "Type (Header ?f0) = FrameTypeMetadataPush"
    by simp_all
  have a: "DispatchFrame ?env ?p [] ?f1 = (Return None, ?p, [LoggerWarnf 1])"
    using MetadataPush_dispatch [OF t1, where env = ?env and p = ?p and log = "[]", THEN conjunct1]
    by simp
  have e: "conn ?p = Some (Conn 0)"
    "conn_SetDeadline ?env [] (time_Now ?env [] + maxLifetime ?p) = None"
    "getHandler ?p OnMetadataPush = Some (\<lambda>log f. None)"
    "time_Now ?env [] + maxLifetime ?p = 90000000000"
    by (simp_all add: scripted_def NewTransport_def Handle_def getHandler_def
        DefaultKeepaliveMaxLifetime_def)
  have b: "DispatchFrame ?env ?p [] ?f0
      = (Return None, ?p, [ConnSetDeadline 90000000000, CallHandler OnMetadataPush ?f0])"
    using MetadataPush_dispatch [OF t0, where env = ?env and p = ?p and log = "[]"
        and c = "Conn 0" and h = "\<lambda>log f. None", THEN conjunct2, THEN conjunct2,
        THEN conjunct1] e
    by simp
  show ?thesis
    by (intro conjI) (rule t1, rule a, rule b)
qed

subsection \<open>The last received position\<close>

text \<open>
  C7. For a Keepalive frame \<open>DispatchFrame\<close> sets \<open>lastRcvPos\<close> to the frame's
  \<open>LastReceivedPosition\<close> before it sets the deadline and calls the handler; for a
  ResumeOK frame it sets \<open>lastRcvPos\<close> to the frame's \<open>LastReceivedClientPosition\<close>;
  dispatching a frame of any other type leaves \<open>lastRcvPos\<close> as it is.
\<close>

theorem lastRcvPos_dispatch:
  "(Type (Header frame) = FrameTypeKeepalive \<and> Value frame = KeepaliveFrame pos \<longrightarrow>
      DispatchFrame env p log frame
        = dispatch_tail env (p\<lparr>lastRcvPos := pos\<rparr>) log frame (Some OnKeepalive)
      \<and> lastRcvPos (fst (snd (DispatchFrame env p log frame))) = pos)
   \<and> (Type (Header frame) = FrameTypeResumeOK \<and> Value frame = ResumeOKFrame pos \<longrightarrow>
      DispatchFrame env p log frame
        = dispatch_tail env (p\<lparr>lastRcvPos := pos\<rparr>) log frame (Some OnResumeOK)
      \<and> lastRcvPos (fst (snd (DispatchFrame env p log frame))) = pos)
   \<and> (Type (Header frame) \<noteq> FrameTypeKeepalive \<and> Type (Header frame) \<noteq> FrameTypeResumeOK \<longrightarrow>
      lastRcvPos (fst (snd (DispatchFrame env p log frame))) = lastRcvPos p)"
proof -
  have a: "Type (Header frame) = FrameTypeKeepalive \<and> Value frame = KeepaliveFrame pos \<longrightarrow>
      DispatchFrame env p log frame
        = dispatch_tail env (p\<lparr>lastRcvPos := pos\<rparr>) log frame (Some OnKeepalive)
      \<and> lastRcvPos (fst (snd (DispatchFrame env p log frame))) = pos"
    by (simp add: DispatchFrame_def Let_def dispatch_tail_transport)
  have b: "Type (Header frame) = FrameTypeResumeOK \<and> Value frame = ResumeOKFrame pos \<longrightarrow>
      DispatchFrame env p log frame
        = dispatch_tail env (p\<lparr>lastRcvPos := pos\<rparr>) log frame (Some OnResumeOK)
      \<and> lastRcvPos (fst (snd (DispatchFrame env p log frame))) = pos"
    by (simp add: DispatchFrame_def Let_def dispatch_tail_transport)
  have c: "Type (Header frame) \<noteq> FrameTypeKeepalive \<and> Type (Header frame) \<noteq> FrameTypeResumeOK \<longrightarrow>
      lastRcvPos (fst (snd (DispatchFrame env p log frame))) = lastRcvPos p"
    by (simp add: DispatchFrame_def Let_def dispatch_tail_transport
        split: FrameValue.splits option.splits)
  show ?thesis
    by (intro conjI) (rule a, rule b, rule c)
qed

text \<open>
  A Keepalive frame with position 7 sets the position of a new transport to 7; a Payload
  frame leaves it at 0.
\<close>

theorem lastRcvPos_dispatch_witness:
  "Type (Header \<lparr>Header = \<lparr>StreamID = 0, Type = FrameTypeKeepalive, Flag = 0\<rparr>,
                  Value = KeepaliveFrame 7\<rparr>) = FrameTypeKeepalive
   \<and> lastRcvPos (NewTransport (Some (Conn 0)) :: nat Transport) = 0
   \<and> lastRcvPos (fst (snd (DispatchFrame (scripted []) (NewTransport (Some (Conn 0)) :: nat Transport) []
        \<lparr>Header = \<lparr>StreamID = 0, Type = FrameTypeKeepalive, Flag = 0\<rparr>,
         Value = KeepaliveFrame 7\<rparr>))) = 7
   \<and> lastRcvPos (fst (snd (DispatchFrame (scripted []) (NewTransport (Some (Conn 0)) :: nat Transport) []
        \<lparr>Header = \<lparr>StreamID = 1, Type = FrameTypePayload, Flag = 0\<rparr>,
         Value = KeepaliveFrame 7\<rparr>))) = 0"
proof -
  let ?env = "scripted [] :: nat env"
  let ?p = "NewTransport (Some (Conn 0)) :: nat Transport"
  let ?k = "\<lparr>Header = \<lparr>StreamID = 0, Type = FrameTypeKeepalive, Flag = 0\<rparr>,
            Value = KeepaliveFrame 7\<rparr>"
  let ?q = "\<lparr>Header = \<lparr>StreamID = 1, Type = FrameTypePayload, Flag = 0\<rparr>,
            Value = KeepaliveFrame 7\<rparr>"
  have t: "Type (Header ?k) = FrameTypeKeepalive"
    by simp
  have z: "lastRcvPos ?p = 0"
    by (simp add: NewTransport_def)
  have tv: "Type (Header ?k) = FrameTypeKeepalive \<and> Value ?k = KeepaliveFrame 7"
    by simp
  have a: "lastRcvPos (fst (snd (DispatchFrame ?env ?p [] ?k))) = 7"
    by (rule lastRcvPos_dispatch [where env = ?env and p = ?p and log = "[]" and frame = ?k
          and pos = 7, THEN conjunct1, THEN mp, OF tv, THEN conjunct2])
  have b: "lastRcvPos (fst (snd (DispatchFrame ?env ?p [] ?q))) = 0"
    using lastRcvPos_dispatch [where env = ?env and p = ?p and log = "[]" and frame = ?q,
        THEN conjunct2, THEN conjunct2] z
    by simp
  show ?thesis
    by (intro conjI) (rule t, rule z, rule a, rule b)
qed

subsection \<open>Error frames\<close>

text \<open>
  C4. For an Error frame with stream id 0, \<open>DispatchFrame\<close> decodes the frame into an
  error value, passes the frame to the \<open>OnErrorWithZeroStreamID\<close> handler when one is
  registered, and returns the decoded error, with which \<open>Start\<close> returns (wrapped) and
  closes the transport; an Error frame with a non-zero stream id goes to the \<open>OnError\<close>
  handler.
\<close>

theorem zero_stream_Error_dispatch:
  assumes "Type (Header frame) = FrameTypeError" and "Value frame = ErrorFrame code dat"
  shows "(StreamID (Header frame) = 0 \<and> getHandler p OnErrorWithZeroStreamID = Some h \<longrightarrow>
            DispatchFrame env p log frame
              = (Return (Some (ToError code dat)), p,
                 log @ [CallHandler OnErrorWithZeroStreamID frame]))
       \<and> (StreamID (Header frame) = 0 \<and> getHandler p OnErrorWithZeroStreamID = None \<longrightarrow>
            DispatchFrame env p log frame = (Return (Some (ToError code dat)), p, log))
       \<and> (StreamID (Header frame) = 0 \<and> ctx_Err env log = None \<and> conn p = Some c
            \<and> conn_Read env log = Inr frame \<longrightarrow>
            (\<exists>p' log'. Start env (Suc n) p log
               = Some (Return (Some (Wrap (ToError code dat) DispatchFailed)), p', log')
               \<and> once p'))
       \<and> (StreamID (Header frame) \<noteq> 0 \<longrightarrow>
            DispatchFrame env p log frame = dispatch_tail env p log frame (Some OnError))
       \<and> (StreamID (Header frame) \<noteq> 0 \<and> conn p = Some c
            \<and> conn_SetDeadline env log (time_Now env log + maxLifetime p) = None
            \<and> getHandler p OnError = Some h \<longrightarrow>
            DispatchFrame env p log frame
              = (Return (map_option (\<lambda>e. Wrap e (HandleFrameFailed FrameTypeError))
                          (h (log @ [ConnSetDeadline (time_Now env log + maxLifetime p)]) frame)),
                 p,
                 log @ [ConnSetDeadline (time_Now env log + maxLifetime p),
                        CallHandler OnError frame]))"
proof -
  have a: "StreamID (Header frame) = 0 \<and> getHandler p OnErrorWithZeroStreamID = Some h \<longrightarrow>
            DispatchFrame env p log frame
              = (Return (Some (ToError code dat)), p,
                 log @ [CallHandler OnErrorWithZeroStreamID frame])"
    using assms by (simp add: DispatchFrame_def Let_def)
  have b: "StreamID (Header frame) = 0 \<and> getHandler p OnErrorWithZeroStreamID = None \<longrightarrow>
            DispatchFrame env p log frame = (Return (Some (ToError code dat)), p, log)"
    using assms by (simp add: DispatchFrame_def Let_def)
  have z: "StreamID (Header frame) = 0 \<longrightarrow>
      (\<exists>l. DispatchFrame env p (log @ [ConnRead]) frame
         = (Return (Some (ToError code dat)), p, l))"
    using assms by (simp add: DispatchFrame_def Let_def split: option.splits)
  have s: "StreamID (Header frame) = 0 \<and> ctx_Err env log = None \<and> conn p = Some c
            \<and> conn_Read env log = Inr frame \<longrightarrow>
            (\<exists>p' log'. Start env (Suc n) p log
               = Some (Return (Some (Wrap (ToError code dat) DispatchFailed)), p', log')
               \<and> once p')"
  proof
    assume h: "StreamID (Header frame) = 0 \<and> ctx_Err env log = None \<and> conn p = Some c
            \<and> conn_Read env log = Inr frame"
    with z obtain l where d: "DispatchFrame env p (log @ [ConnRead]) frame
         = (Return (Some (ToError code dat)), p, l)"
      by blast
    have r: "rounds env 0 p log = Some (p, log)"
      by simp
    have "Start_round env p log
        = Stop (Return (Some (Wrap (ToError code dat) DispatchFailed))) p l"
      using h d by (simp add: Start_round_def leave_def ToError_def)
    from Start_after_rounds [OF r this, of "Suc n" c] h
    have st: "Start env (Suc n) p log
        = Some (Return (Some (Wrap (ToError code dat) DispatchFailed)), p\<lparr>once := True\<rparr>,
                if once p then l else l @ [ConnClose])"
      by simp
    show "\<exists>p' log'. Start env (Suc n) p log
               = Some (Return (Some (Wrap (ToError code dat) DispatchFailed)), p', log')
               \<and> once p'"
      unfolding st by simp
  qed
  have c: "StreamID (Header frame) \<noteq> 0 \<longrightarrow>
            DispatchFrame env p log frame = dispatch_tail env p log frame (Some OnError)"
    using assms by (simp add: DispatchFrame_def Let_def)
  have d: "StreamID (Header frame) \<noteq> 0 \<and> conn p = Some c
            \<and> conn_SetDeadline env log (time_Now env log + maxLifetime p) = None
            \<and> getHandler p OnError = Some h \<longrightarrow>
            DispatchFrame env p log frame
              = (Return (map_option (\<lambda>e. Wrap e (HandleFrameFailed FrameTypeError))
                          (h (log @ [ConnSetDeadline (time_Now env log + maxLifetime p)]) frame)),
                 p,
                 log @ [ConnSetDeadline (time_Now env log + maxLifetime p),
                        CallHandler OnError frame])"
    using c assms by (auto simp add: dispatch_tail_handled)
  show ?thesis
    by (intro conjI) (rule a, rule b, rule s, rule c, rule d)
qed

text \<open>
  An Error frame on stream 0 with code \<open>0x0101\<close>, with a handler registered: the handler
  is called with the frame and the decoded error is returned.
\<close>

theorem zero_stream_Error_dispatch_witness:
  "Type (Header \<lparr>Header = \<lparr>StreamID = 0, Type = FrameTypeError, Flag = 0\<rparr>,
                  Value = ErrorFrame 0x101 [0x78]\<rparr>) = FrameTypeError
   \<and> DispatchFrame (scripted [])
        (Handle (NewTransport (Some (Conn 0)) :: nat Transport) OnErrorWithZeroStreamID
           (Some (\<lambda>log f. None))) []
        \<lparr>Header = \<lparr>StreamID = 0, Type = FrameTypeError, Flag = 0\<rparr>,
         Value = ErrorFrame 0x101 [0x78]\<rparr>
      = (Return (Some (CustomError 0x101 [0x78])),
         Handle (NewTransport (Some (Conn 0))) OnErrorWithZeroStreamID (Some (\<lambda>log f. None)),
         [CallHandler OnErrorWithZeroStreamID
            \<lparr>Header = \<lparr>StreamID = 0, Type = FrameTypeError, Flag = 0\<rparr>,
             Value = ErrorFrame 0x101 [0x78]\<rparr>])"
proof -
  let ?env = "scripted [] :: nat env"
  let ?p = "Handle (NewTransport (Some (Conn 0)) :: nat Transport) OnErrorWithZeroStreamID
              (Some (\<lambda>log f. None))"
  let ?f = "\<lparr>Header = \<lparr>StreamID = 0, Type = FrameTypeError, Flag = 0\<rparr>,
            Value = ErrorFrame 0x101 [0x78]\<rparr>"
  have t: "Type (Header ?f) = FrameTypeError" and v: "Value ?f = ErrorFrame 0x101 [0x78]"
    by simp_all
  have h: "getHandler ?p OnErrorWithZeroStreamID = Some (\<lambda>log f. None)"
    by (simp add: Handle_def getHandler_def)
  have a: "DispatchFrame ?env ?p [] ?f
      = (Return (Some (CustomError 0x101 [0x78])), ?p, [CallHandler OnErrorWithZeroStreamID ?f])"
    using zero_stream_Error_dispatch [OF t v, where env = ?env and p = ?p and log = "[]"
        and h = "\<lambda>log f. None", THEN conjunct1] h
    by (simp add: ToError_def)
  show ?thesis
    by (intro conjI) (rule t, rule a)
qed

subsection \<open>The deadline\<close>

text \<open>
  C2, as stated, fails: the deadline is not set for every dispatched frame. A
  MetadataPush frame with stream id 1 is dropped with a warning, and an Error frame with
  stream id 0 is returned as an error, before any call of \<open>SetDeadline\<close>: the log holds
  no such call.
\<close>

theorem deadline_skipped_counterexample:
  "well_typed \<lparr>Header = \<lparr>StreamID = 1, Type = FrameTypeMetadataPush, Flag = 0\<rparr>,
               Value = OtherFrame []\<rparr>
   \<and> DispatchFrame (scripted []) (NewTransport (Some (Conn 0)) :: nat Transport) []
        \<lparr>Header = \<lparr>StreamID = 1, Type = FrameTypeMetadataPush, Flag = 0\<rparr>, Value = OtherFrame []\<rparr>
      = (Return None, NewTransport (Some (Conn 0)), [LoggerWarnf 1])
   \<and> well_typed \<lparr>Header = \<lparr>StreamID = 0, Type = FrameTypeError, Flag = 0\<rparr>,
                 Value = ErrorFrame 0x101 []\<rparr>
   \<and> DispatchFrame (scripted []) (NewTransport (Some (Conn 0)) :: nat Transport) []
        \<lparr>Header = \<lparr>StreamID = 0, Type = FrameTypeError, Flag = 0\<rparr>, Value = ErrorFrame 0x101 []\<rparr>
      = (Return (Some (CustomError 0x101 [])), NewTransport (Some (Conn 0)), [])"
  by (simp add: well_typed_def DispatchFrame_def NewTransport_def getHandler_def ToError_def)

text \<open>
  C2, amended. For every dispatched frame other than a MetadataPush frame with a
  non-zero stream id and an Error frame with stream id 0, \<open>DispatchFrame\<close> first calls
  \<open>SetDeadline\<close> with \<open>now + maxLifetime\<close>; for those two kinds of frame it returns
  without a call of \<open>SetDeadline\<close>. \<open>maxLifetime\<close> starts at the default and is
  overridden by the \<open>MaxLifetime\<close> of a received Setup frame, whose own deadline already
  uses the new value; no other frame changes it.
\<close>

theorem deadline_after_dispatch:
  assumes "well_typed frame" and "conn p = Some c"
  shows "(\<not> returns_early frame \<longrightarrow>
            (\<exists>rest. snd (snd (DispatchFrame env p log frame))
               = log @ ConnSetDeadline
                         (time_Now env log + maxLifetime (fst (snd (DispatchFrame env p log frame))))
                       # rest))
       \<and> (Type (Header frame) = FrameTypeSetup \<and> Value frame = SetupFrame ml \<longrightarrow>
            maxLifetime (fst (snd (DispatchFrame env p log frame))) = ml)
       \<and> (Type (Header frame) \<noteq> FrameTypeSetup \<longrightarrow>
            maxLifetime (fst (snd (DispatchFrame env p log frame))) = maxLifetime p)
       \<and> (returns_early frame \<longrightarrow>
            (\<forall>d. ConnSetDeadline d \<notin> set (drop (length log) (snd (snd (DispatchFrame env p log frame))))))
       \<and> maxLifetime (NewTransport c0 :: 'a Transport) = DefaultKeepaliveMaxLifetime"
proof -
  have a: "\<not> returns_early frame \<longrightarrow>
            (\<exists>rest. snd (snd (DispatchFrame env p log frame))
               = log @ ConnSetDeadline
                         (time_Now env log + maxLifetime (fst (snd (DispatchFrame env p log frame))))
                       # rest)"
  proof
    assume n: "\<not> returns_early frame"
    have d: "DispatchFrame env p log frame
        = dispatch_tail env (switched p frame) log frame (event_of (Type (Header frame)))"
      using assms(1) n by (rule DispatchFrame_tail)
    have c: "conn (switched p frame) = Some c"
      using switched_fields [of p frame] assms(2) by simp
    show "\<exists>rest. snd (snd (DispatchFrame env p log frame))
               = log @ ConnSetDeadline
                         (time_Now env log + maxLifetime (fst (snd (DispatchFrame env p log frame))))
                       # rest"
      unfolding d dispatch_tail_transport using c by (rule dispatch_tail_deadline)
  qed
  have b: "Type (Header frame) = FrameTypeSetup \<and> Value frame = SetupFrame ml \<longrightarrow>
            maxLifetime (fst (snd (DispatchFrame env p log frame))) = ml"
    by (simp add: DispatchFrame_def Let_def dispatch_tail_transport)
  have c: "Type (Header frame) \<noteq> FrameTypeSetup \<longrightarrow>
            maxLifetime (fst (snd (DispatchFrame env p log frame))) = maxLifetime p"
    by (simp add: DispatchFrame_def Let_def dispatch_tail_transport
        split: FrameValue.splits option.splits)
  have d: "returns_early frame \<longrightarrow>
            (\<forall>d. ConnSetDeadline d \<notin> set (drop (length log) (snd (snd (DispatchFrame env p log frame)))))"
  proof
    assume "returns_early frame"
    from returns_early_log [OF assms(1) this, of env p log]
    show "\<forall>d. ConnSetDeadline d \<notin> set (drop (length log) (snd (snd (DispatchFrame env p log frame))))"
      by auto
  qed
  have e: "maxLifetime (NewTransport c0 :: 'a Transport) = DefaultKeepaliveMaxLifetime"
    by (simp add: NewTransport_def)
  show ?thesis
    by (intro conjI) (rule a, rule b, rule c, rule d, rule e)
qed

text \<open>
  A Setup frame with a lifetime of 5000, dispatched at time 1 by a new transport: the
  lifetime becomes 5000 and the deadline is 5001.
\<close>

theorem deadline_after_dispatch_witness:
  "well_typed \<lparr>Header = \<lparr>StreamID = 0, Type = FrameTypeSetup, Flag = 0\<rparr>, Value = SetupFrame 5000\<rparr>
   \<and> conn (NewTransport (Some (Conn 0)) :: nat Transport) = Some (Conn 0)
   \<and> \<not> returns_early \<lparr>Header = \<lparr>StreamID = 0, Type = FrameTypeSetup, Flag = 0\<rparr>,
                        Value = SetupFrame 5000\<rparr>
   \<and> time_Now (scripted [] :: nat env) [ConnRead] = 1
   \<and> maxLifetime (fst (snd (DispatchFrame (scripted []) (NewTransport (Some (Conn 0)) :: nat Transport)
        [ConnRead]
        \<lparr>Header = \<lparr>StreamID = 0, Type = FrameTypeSetup, Flag = 0\<rparr>, Value = SetupFrame 5000\<rparr>)))
      = 5000
   \<and> take 2 (snd (snd (DispatchFrame (scripted []) (NewTransport (Some (Conn 0)) :: nat Transport)
        [ConnRead]
        \<lparr>Header = \<lparr>StreamID = 0, Type = FrameTypeSetup, Flag = 0\<rparr>, Value = SetupFrame 5000\<rparr>)))
      = [ConnRead, ConnSetDeadline 5001]"
proof -
  let ?env = "scripted [] :: nat env"
  let ?p = "NewTransport (Some (Conn 0)) :: nat Transport"
  let ?f = "\<lparr>Header = \<lparr>StreamID = 0, Type = FrameTypeSetup, Flag = 0\<rparr>, Value = SetupFrame 5000\<rparr>"
  have w: "well_typed ?f" and c: "conn ?p = Some (Conn 0)" and n: "\<not> returns_early ?f"
    and t: "time_Now ?env [ConnRead] = 1"
    by (simp_all add: well_typed_def NewTransport_def returns_early_def scripted_def)
  note th = deadline_after_dispatch [OF w c, where env = ?env and log = "[ConnRead]" and ml = 5000]
  have m: "maxLifetime (fst (snd (DispatchFrame ?env ?p [ConnRead] ?f))) = 5000"
    using th [THEN conjunct2, THEN conjunct1] by simp
  from th [THEN conjunct1] n obtain rest where
    "snd (snd (DispatchFrame ?env ?p [ConnRead] ?f))
       = [ConnRead] @ ConnSetDeadline
           (time_Now ?env [ConnRead] + maxLifetime (fst (snd (DispatchFrame ?env ?p [ConnRead] ?f))))
         # rest"
    by blast
  then have l: "take 2 (snd (snd (DispatchFrame ?env ?p [ConnRead] ?f)))
      = [ConnRead, ConnSetDeadline 5001]"
    unfolding m t by simp
  show ?thesis
    by (intro conjI) (rule w, rule c, rule n, rule t, rule m, rule l)
qed

subsection \<open>Missing handlers\<close>

text \<open>
  C5, as stated, fails: a frame whose type has no registered handler does not always
  give the \<open>NoHandler\<close> error. With no handler registered at all, a MetadataPush frame
  with stream id 1 gives nil; and when \<open>SetDeadline\<close> fails, a Payload frame gives the
  error of \<open>SetDeadline\<close>.
\<close>

theorem missing_handler_counterexample:
  "getHandler (NewTransport (Some (Conn 0)) :: nat Transport) OnMetadataPush = None
   \<and> fst (DispatchFrame (scripted []) (NewTransport (Some (Conn 0)) :: nat Transport) []
        \<lparr>Header = \<lparr>StreamID = 1, Type = FrameTypeMetadataPush, Flag = 0\<rparr>, Value = OtherFrame []\<rparr>)
      = Return None
   \<and> \<not> IsNoHandlerError None
   \<and> getHandler (NewTransport (Some (Conn 0)) :: nat Transport) OnPayload = None
   \<and> fst (DispatchFrame ((scripted []) \<lparr>conn_SetDeadline := (\<lambda>log t. Some (OtherError 3))\<rparr>)
        (NewTransport (Some (Conn 0)) :: nat Transport) []
        \<lparr>Header = \<lparr>StreamID = 1, Type = FrameTypePayload, Flag = 0\<rparr>, Value = OtherFrame []\<rparr>)
      = Return (Some (OtherError 3))
   \<and> \<not> IsNoHandlerError (Some (OtherError 3))"
  by (simp add: DispatchFrame_def dispatch_tail_def NewTransport_def getHandler_def scripted_def
      IsNoHandlerError_def)

text \<open>
  C5, amended. For every frame that the switch passes on (not a MetadataPush frame with
  a non-zero stream id, not an Error frame with stream id 0) and whose type has no
  registered handler, \<open>DispatchFrame\<close> returns the \<open>NoHandler\<close> error, which
  \<open>IsNoHandlerError\<close> recognises, provided the call of \<open>SetDeadline\<close> succeeded; the
  error ends the loop of \<open>Start\<close>, which returns it wrapped and closes the transport.
\<close>

theorem missing_handler_dispatch:
  assumes "well_typed frame" and "\<not> returns_early frame" and "conn p = Some c"
    and "case event_of (Type (Header frame)) of None \<Rightarrow> True | Some ev \<Rightarrow> getHandler p ev = None"
  shows "(conn_SetDeadline env log (time_Now env log + maxLifetime (switched p frame)) = None \<longrightarrow>
            DispatchFrame env p log frame
              = (Return (Some errNoHandler), switched p frame,
                 log @ [ConnSetDeadline (time_Now env log + maxLifetime (switched p frame))])
            \<and> IsNoHandlerError (Some errNoHandler))
       \<and> (ctx_Err env log = None \<and> conn_Read env log = Inr frame
            \<and> conn_SetDeadline env (log @ [ConnRead])
                 (time_Now env (log @ [ConnRead]) + maxLifetime (switched p frame)) = None \<longrightarrow>
            (\<exists>p' log'. Start env (Suc n) p log
               = Some (Return (Some (Wrap errNoHandler DispatchFailed)), p', log') \<and> once p'))"
proof -
  have cs: "conn (switched p frame) = Some c"
    using switched_fields [of p frame] assms(3) by simp
  have hs: "case event_of (Type (Header frame)) of None \<Rightarrow> True
            | Some ev \<Rightarrow> getHandler (switched p frame) ev = None"
    using switched_fields [of p frame] assms(4)
    by (simp add: getHandler_def split: option.splits)
  have d: "conn_SetDeadline env l (time_Now env l + maxLifetime (switched p frame)) = None \<longrightarrow>
            DispatchFrame env p l frame
              = (Return (Some errNoHandler), switched p frame,
                 l @ [ConnSetDeadline (time_Now env l + maxLifetime (switched p frame))])" for l
  proof
    assume sd: "conn_SetDeadline env l (time_Now env l + maxLifetime (switched p frame)) = None"
    have "DispatchFrame env p l frame
        = dispatch_tail env (switched p frame) l frame (event_of (Type (Header frame)))"
      using assms(1,2) by (rule DispatchFrame_tail)
    also have "\<dots> = (Return (Some errNoHandler), switched p frame,
                 l @ [ConnSetDeadline (time_Now env l + maxLifetime (switched p frame))])"
      using cs sd hs by (rule dispatch_tail_no_handler)
    finally show "DispatchFrame env p l frame
              = (Return (Some errNoHandler), switched p frame,
                 l @ [ConnSetDeadline (time_Now env l + maxLifetime (switched p frame))])" .
  qed
  have a: "conn_SetDeadline env log (time_Now env log + maxLifetime (switched p frame)) = None \<longrightarrow>
            DispatchFrame env p log frame
              = (Return (Some errNoHandler), switched p frame,
                 log @ [ConnSetDeadline (time_Now env log + maxLifetime (switched p frame))])
            \<and> IsNoHandlerError (Some errNoHandler)"
    using d [of log] by (simp add: IsNoHandlerError_def)
  have b: "ctx_Err env log = None \<and> conn_Read env log = Inr frame
            \<and> conn_SetDeadline env (log @ [ConnRead])
                 (time_Now env (log @ [ConnRead]) + maxLifetime (switched p frame)) = None \<longrightarrow>
            (\<exists>p' log'. Start env (Suc n) p log
               = Some (Return (Some (Wrap errNoHandler DispatchFailed)), p', log') \<and> once p')"
  proof
    assume h: "ctx_Err env log = None \<and> conn_Read env log = Inr frame
            \<and> conn_SetDeadline env (log @ [ConnRead])
                 (time_Now env (log @ [ConnRead]) + maxLifetime (switched p frame)) = None"
    let ?l = "log @ [ConnRead]"
    let ?l' = "?l @ [ConnSetDeadline (time_Now env ?l + maxLifetime (switched p frame))]"
    have df: "DispatchFrame env p ?l frame = (Return (Some errNoHandler), switched p frame, ?l')"
      using d [of ?l] h by simp
    have r: "rounds env 0 p log = Some (p, log)"
      by simp
    have "Start_round env p log
        = Stop (Return (Some (Wrap errNoHandler DispatchFailed))) (switched p frame) ?l'"
      using h df assms(3) by (simp add: Start_round_def leave_def)
    from Start_after_rounds [OF r this, of "Suc n" c] assms(3)
    have st: "Start env (Suc n) p log
        = Some (Return (Some (Wrap errNoHandler DispatchFailed)),
                (switched p frame)\<lparr>once := True\<rparr>,
                if once (switched p frame) then ?l' else ?l' @ [ConnClose])"
      by simp
    show "\<exists>p' log'. Start env (Suc n) p log
               = Some (Return (Some (Wrap errNoHandler DispatchFailed)), p', log') \<and> once p'"
      unfolding st by simp
  qed
  show ?thesis
    by (intro conjI) (rule a, rule b)
qed

text \<open>
  A Payload frame read by a transport without handlers: \<open>DispatchFrame\<close> returns the
  \<open>NoHandler\<close> error and \<open>Start\<close> returns it wrapped.
\<close>

theorem missing_handler_dispatch_witness:
  "well_typed \<lparr>Header = \<lparr>StreamID = 1, Type = FrameTypePayload, Flag = 0\<rparr>, Value = OtherFrame []\<rparr>
   \<and> \<not> returns_early \<lparr>Header = \<lparr>StreamID = 1, Type = FrameTypePayload, Flag = 0\<rparr>,
                        Value = OtherFrame []\<rparr>
   \<and> conn (NewTransport (Some (Conn 0)) :: nat Transport) = Some (Conn 0)
   \<and> event_of FrameTypePayload = Some OnPayload
   \<and> getHandler (NewTransport (Some (Conn 0)) :: nat Transport) OnPayload = None
   \<and> fst (DispatchFrame (scripted []) (NewTransport (Some (Conn 0)) :: nat Transport) []
        \<lparr>Header = \<lparr>StreamID = 1, Type = FrameTypePayload, Flag = 0\<rparr>, Value = OtherFrame []\<rparr>)
      = Return (Some errNoHandler)
   \<and> IsNoHandlerError (Some errNoHandler)
   \<and> map_option fst
        (Start (scripted [Inr \<lparr>Header = \<lparr>StreamID = 1, Type = FrameTypePayload, Flag = 0\<rparr>,
                               Value = OtherFrame []\<rparr>])
           (Suc 0) (NewTransport (Some (Conn 0)) :: nat Transport) [])
      = Some (Return (Some (Wrap errNoHandler DispatchFailed)))"
proof -
  let ?f = "\<lparr>Header = \<lparr>StreamID = 1, Type = FrameTypePayload, Flag = 0\<rparr>, Value = OtherFrame []\<rparr>"
  let ?env = "scripted [] :: nat env"
  let ?env1 = "scripted [Inr ?f] :: nat env"
  let ?p = "NewTransport (Some (Conn 0)) :: nat Transport"
  have w: "well_typed ?f" and n: "\<not> returns_early ?f" and c: "conn ?p = Some (Conn 0)"
    and ev: "event_of FrameTypePayload = Some OnPayload" and g: "getHandler ?p OnPayload = None"
    by (simp_all add: well_typed_def returns_early_def NewTransport_def event_of_def getHandler_def)
  have h: "case event_of (Type (Header ?f)) of None \<Rightarrow> True | Some ev \<Rightarrow> getHandler ?p ev = None"
    using ev g by simp
  have sd: "conn_SetDeadline ?env [] (time_Now ?env [] + maxLifetime (switched ?p ?f)) = None"
    by (simp add: scripted_def)
  have d: "fst (DispatchFrame ?env ?p [] ?f) = Return (Some errNoHandler)"
    and i: "IsNoHandlerError (Some errNoHandler)"
    using missing_handler_dispatch [OF w n c h, where env = ?env and log = "[]",
        THEN conjunct1, THEN mp, OF sd]
    by simp_all
  have rd: "ctx_Err ?env1 [] = None \<and> conn_Read ?env1 [] = Inr ?f
      \<and> conn_SetDeadline ?env1 ([] @ [ConnRead])
           (time_Now ?env1 ([] @ [ConnRead]) + maxLifetime (switched ?p ?f)) = None"
    by (simp add: scripted_def)
  have s: "map_option fst (Start ?env1 (Suc 0) ?p [])
      = Some (Return (Some (Wrap errNoHandler DispatchFailed)))"
    using missing_handler_dispatch [OF w n c h, where env = ?env1 and log = "[]" and n = 0,
        THEN conjunct2, THEN mp, OF rd]
    by auto
  show ?thesis
    by (intro conjI) (rule w, rule n, rule c, rule ev, rule g, rule d, rule i, rule s)
qed

subsection \<open>Start\<close>

text \<open>
  C3. \<open>Start\<close> reads and dispatches frames in a loop. After any number of rounds that
  went on, and with fuel left for one more round: when the context is done it returns the
  context's error; when the read returns \<open>io.EOF\<close> it returns nil; when the read or the
  dispatch returns another error it returns that error wrapped (a dispatch that returns
  \<open>io.EOF\<close> itself ends the loop with nil, as a read does); when the dispatch returns nil
  the loop goes on to the next round; and whenever \<open>Start\<close> returns, the transport is
  closed (\<open>Close\<close> has run, and it called \<open>Close\<close> of the connection last unless the
  transport was closed before).
\<close>

theorem Start_returns:
  assumes "rounds env k p log = Some (p1, log1)" and "k < n" and "conn p = Some c"
  shows "(ctx_Err env log1 = Some e \<longrightarrow>
            Start env n p log
              = Some (Return (Some e), p1\<lparr>once := True\<rparr>,
                      if once p1 then log1 else log1 @ [ConnClose]))
       \<and> (ctx_Err env log1 = None \<and> conn_Read env log1 = Inl io_EOF \<longrightarrow>
            Start env n p log
              = Some (Return None, p1\<lparr>once := True\<rparr>,
                      if once p1 then log1 @ [ConnRead] else log1 @ [ConnRead, ConnClose]))
       \<and> (ctx_Err env log1 = None \<and> conn_Read env log1 = Inl e \<and> e \<noteq> io_EOF \<longrightarrow>
            Start env n p log
              = Some (Return (Some (Wrap e DispatchFailed)), p1\<lparr>once := True\<rparr>,
                      if once p1 then log1 @ [ConnRead] else log1 @ [ConnRead, ConnClose]))
       \<and> (ctx_Err env log1 = None \<and> conn_Read env log1 = Inr f
            \<and> DispatchFrame env p1 (log1 @ [ConnRead]) f = (Return (Some e), p2, log2)
            \<and> e \<noteq> io_EOF \<longrightarrow>
            Start env n p log
              = Some (Return (Some (Wrap e DispatchFailed)), p2\<lparr>once := True\<rparr>,
                      if once p2 then log2 else log2 @ [ConnClose]))
       \<and> (ctx_Err env log1 = None \<and> conn_Read env log1 = Inr f
            \<and> DispatchFrame env p1 (log1 @ [ConnRead]) f = (Return (Some io_EOF), p2, log2) \<longrightarrow>
            Start env n p log
              = Some (Return None, p2\<lparr>once := True\<rparr>,
                      if once p2 then log2 else log2 @ [ConnClose]))
       \<and> (ctx_Err env log1 = None \<and> conn_Read env log1 = Inr f
            \<and> DispatchFrame env p1 (log1 @ [ConnRead]) f = (Return None, p2, log2) \<longrightarrow>
            rounds env (Suc k) p log = Some (p2, log2))
       \<and> (\<forall>r p' log'. Start env n p log = Some (r, p', log') \<longrightarrow> once p')"
proof -
  have c1: "conn p1 = Some c"
    using rounds_transport [OF assms(1)] assms(3) by simp
  have a: "ctx_Err env log1 = Some e \<longrightarrow>
            Start env n p log
              = Some (Return (Some e), p1\<lparr>once := True\<rparr>,
                      if once p1 then log1 else log1 @ [ConnClose])"
  proof
    assume "ctx_Err env log1 = Some e"
    then have "Start_round env p1 log1 = Stop (Return (Some e)) p1 log1"
      by (simp add: Start_round_def)
    from Start_after_rounds [OF assms(1) this assms(2,3)] show "Start env n p log
              = Some (Return (Some e), p1\<lparr>once := True\<rparr>,
                      if once p1 then log1 else log1 @ [ConnClose])" .
  qed
  have b: "ctx_Err env log1 = None \<and> conn_Read env log1 = Inl io_EOF \<longrightarrow>
            Start env n p log
              = Some (Return None, p1\<lparr>once := True\<rparr>,
                      if once p1 then log1 @ [ConnRead] else log1 @ [ConnRead, ConnClose])"
  proof
    assume "ctx_Err env log1 = None \<and> conn_Read env log1 = Inl io_EOF"
    then have "Start_round env p1 log1 = Stop (Return None) p1 (log1 @ [ConnRead])"
      using c1 by (simp add: Start_round_def leave_def)
    from Start_after_rounds [OF assms(1) this assms(2,3)] show "Start env n p log
              = Some (Return None, p1\<lparr>once := True\<rparr>,
                      if once p1 then log1 @ [ConnRead] else log1 @ [ConnRead, ConnClose])"
      by simp
  qed
  have c: "ctx_Err env log1 = None \<and> conn_Read env log1 = Inl e \<and> e \<noteq> io_EOF \<longrightarrow>
            Start env n p log
              = Some (Return (Some (Wrap e DispatchFailed)), p1\<lparr>once := True\<rparr>,
                      if once p1 then log1 @ [ConnRead] else log1 @ [ConnRead, ConnClose])"
  proof
    assume "ctx_Err env log1 = None \<and> conn_Read env log1 = Inl e \<and> e \<noteq> io_EOF"
    then have "Start_round env p1 log1
        = Stop (Return (Some (Wrap e DispatchFailed))) p1 (log1 @ [ConnRead])"
      using c1 by (simp add: Start_round_def leave_def)
    from Start_after_rounds [OF assms(1) this assms(2,3)] show "Start env n p log
              = Some (Return (Some (Wrap e DispatchFailed)), p1\<lparr>once := True\<rparr>,
                      if once p1 then log1 @ [ConnRead] else log1 @ [ConnRead, ConnClose])"
      by simp
  qed
  have d: "ctx_Err env log1 = None \<and> conn_Read env log1 = Inr f
            \<and> DispatchFrame env p1 (log1 @ [ConnRead]) f = (Return (Some e), p2, log2)
            \<and> e \<noteq> io_EOF \<longrightarrow>
            Start env n p log
              = Some (Return (Some (Wrap e DispatchFailed)), p2\<lparr>once := True\<rparr>,
                      if once p2 then log2 else log2 @ [ConnClose])"
  proof
    assume "ctx_Err env log1 = None \<and> conn_Read env log1 = Inr f
            \<and> DispatchFrame env p1 (log1 @ [ConnRead]) f = (Return (Some e), p2, log2)
            \<and> e \<noteq> io_EOF"
    then have "Start_round env p1 log1 = Stop (Return (Some (Wrap e DispatchFailed))) p2 log2"
      using c1 by (simp add: Start_round_def leave_def)
    from Start_after_rounds [OF assms(1) this assms(2,3)] show "Start env n p log
              = Some (Return (Some (Wrap e DispatchFailed)), p2\<lparr>once := True\<rparr>,
                      if once p2 then log2 else log2 @ [ConnClose])" .
  qed
  have g: "ctx_Err env log1 = None \<and> conn_Read env log1 = Inr f
            \<and> DispatchFrame env p1 (log1 @ [ConnRead]) f = (Return (Some io_EOF), p2, log2) \<longrightarrow>
            Start env n p log
              = Some (Return None, p2\<lparr>once := True\<rparr>,
                      if once p2 then log2 else log2 @ [ConnClose])"
  proof
    assume "ctx_Err env log1 = None \<and> conn_Read env log1 = Inr f
            \<and> DispatchFrame env p1 (log1 @ [ConnRead]) f = (Return (Some io_EOF), p2, log2)"
    then have "Start_round env p1 log1 = Stop (Return None) p2 log2"
      using c1 by (simp add: Start_round_def leave_def)
    from Start_after_rounds [OF assms(1) this assms(2,3)] show "Start env n p log
              = Some (Return None, p2\<lparr>once := True\<rparr>,
                      if once p2 then log2 else log2 @ [ConnClose])" .
  qed
  have f: "ctx_Err env log1 = None \<and> conn_Read env log1 = Inr f
            \<and> DispatchFrame env p1 (log1 @ [ConnRead]) f = (Return None, p2, log2) \<longrightarrow>
            rounds env (Suc k) p log = Some (p2, log2)"
  proof
    assume "ctx_Err env log1 = None \<and> conn_Read env log1 = Inr f
            \<and> DispatchFrame env p1 (log1 @ [ConnRead]) f = (Return None, p2, log2)"
    then have "Start_round env p1 log1 = Continue p2 log2"
      using c1 by (simp add: Start_round_def)
    with assms(1) show "rounds env (Suc k) p log = Some (p2, log2)"
      by (rule rounds_Suc)
  qed
  have o: "\<forall>r p' log'. Start env n p log = Some (r, p', log') \<longrightarrow> once p'"
    using Start_once by blast
  show ?thesis
    by (intro conjI) (rule a, rule b, rule c, rule d, rule g, rule f, rule o)
qed

text \<open>
  A connection that delivers one Keepalive frame and then \<open>io.EOF\<close>: the first round
  dispatches the frame and goes on, the second round ends the loop, \<open>Start\<close> returns nil
  and the connection is closed.
\<close>

theorem Start_returns_witness:
  "rounds (scripted [Inr \<lparr>Header = \<lparr>StreamID = 0, Type = FrameTypeKeepalive, Flag = 0\<rparr>,
                          Value = KeepaliveFrame 7\<rparr>])
      (Suc 0)
      (Handle (NewTransport (Some (Conn 0)) :: nat Transport) OnKeepalive (Some (\<lambda>log f. None))) []
     = Some ((Handle (NewTransport (Some (Conn 0))) OnKeepalive (Some (\<lambda>log f. None)))
               \<lparr>lastRcvPos := 7\<rparr>,
             [ConnRead, ConnSetDeadline 90000000001,
              CallHandler OnKeepalive
                \<lparr>Header = \<lparr>StreamID = 0, Type = FrameTypeKeepalive, Flag = 0\<rparr>,
                 Value = KeepaliveFrame 7\<rparr>])
   \<and> Suc 0 < Suc (Suc 0)
   \<and> conn (Handle (NewTransport (Some (Conn 0)) :: nat Transport) OnKeepalive (Some (\<lambda>log f. None)))
       = Some (Conn 0)
   \<and> Start (scripted [Inr \<lparr>Header = \<lparr>StreamID = 0, Type = FrameTypeKeepalive, Flag = 0\<rparr>,
                          Value = KeepaliveFrame 7\<rparr>])
      (Suc (Suc 0))
      (Handle (NewTransport (Some (Conn 0)) :: nat Transport) OnKeepalive (Some (\<lambda>log f. None))) []
     = Some (Return None,
             (Handle (NewTransport (Some (Conn 0))) OnKeepalive (Some (\<lambda>log f. None)))
               \<lparr>lastRcvPos := 7, once := True\<rparr>,
             [ConnRead, ConnSetDeadline 90000000001,
              CallHandler OnKeepalive
                \<lparr>Header = \<lparr>StreamID = 0, Type = FrameTypeKeepalive, Flag = 0\<rparr>,
                 Value = KeepaliveFrame 7\<rparr>,
              ConnRead, ConnClose])"
proof -
  let ?k = "\<lparr>Header = \<lparr>StreamID = 0, Type = FrameTypeKeepalive, Flag = 0\<rparr>,
            Value = KeepaliveFrame 7\<rparr>"
  let ?env = "scripted [Inr ?k] :: nat env"
  let ?p = "Handle (NewTransport (Some (Conn 0)) :: nat Transport) OnKeepalive (Some (\<lambda>log f. None))"
  let ?l1 = "[ConnRead, ConnSetDeadline 90000000001, CallHandler OnKeepalive ?k] :: nat call list"
  have r: "rounds ?env (Suc 0) ?p [] = Some (?p\<lparr>lastRcvPos := 7\<rparr>, ?l1)"
    by (simp add: Start_round_def DispatchFrame_def dispatch_tail_def scripted_def
        NewTransport_def Handle_def getHandler_def DefaultKeepaliveMaxLifetime_def)
  have lt: "Suc 0 < Suc (Suc 0)"
    by simp
  have c: "conn ?p = Some (Conn 0)"
    by (simp add: NewTransport_def Handle_def)
  have e: "ctx_Err ?env ?l1 = None \<and> conn_Read ?env ?l1 = Inl io_EOF"
    by (simp add: scripted_def)
  have o: "\<not> once (?p\<lparr>lastRcvPos := 7\<rparr>)"
    by (simp add: NewTransport_def Handle_def)
  have s: "Start ?env (Suc (Suc 0)) ?p []
      = Some (Return None, ?p\<lparr>lastRcvPos := 7, once := True\<rparr>, ?l1 @ [ConnRead, ConnClose])"
    using Start_returns [OF r lt c, THEN conjunct2, THEN conjunct1, THEN mp, OF e] o
    by simp
  show ?thesis
    by (intro conjI) (rule r, rule lt, rule c, rule s [simplified])
qed

end
